theory Spec2Isabelle
  imports Main
begin

section \<open>Deck-list parser and card resolver of the mtg plugin\<close>

text \<open>
  A shallow embedding of \<^verbatim>\<open>plugins/mtg/parser.go\<close>: the three line grammars
  \<^verbatim>\<open>cardLineRegexps\<close>, the zone collections \<^verbatim>\<open>CardNames\<close>, the line parser
  \<^verbatim>\<open>parseDeckLine\<close>, the file parser \<^verbatim>\<open>parseDeckFile\<close>, the image selection
  \<^verbatim>\<open>getImageURL\<close>, the zone resolver \<^verbatim>\<open>cardNamesToDeck\<close> and the entry point
  \<^verbatim>\<open>fromDeckFile\<close>.

  Conventions. A Go string is a byte sequence and is a \<^typ>\<open>string\<close> here. A pointer that may
  be nil is an \<^typ>\<open>'a option\<close>. Go's \<^verbatim>\<open>int\<close> is taken as the 64-bit two's complement
  integer: a count is an \<^typ>\<open>int\<close> and every addition goes through \<open>wrap64\<close>. A run-time
  panic is a value of type \<open>panic\<close>, an \<^verbatim>\<open>error\<close> return is a value of type \<open>error\<close>.
  The log calls of the parser and those of level debug and info leave no trace in the model;
  the warnings and errors that the resolver logs are collected in its state.
  \<^verbatim>\<open>time.Sleep\<close> is left out.
\<close>

subsection \<open>Regular expressions with Go's leftmost-first submatch semantics\<close>

text \<open>
  The syntax needed by the three grammars. A character class is a list of inclusive byte
  ranges, possibly negated. A capture group carries its number (the position of its opening
  parenthesis, from 1) and its name (empty for an unnamed group). Repetitions are greedy.
\<close>

datatype regex =
    Bol
  | Eol
  | Lit string
  | Cls bool "(char \<times> char) list"
  | Seq "regex list"
  | Star regex
  | Plus regex
  | Opt regex
  | Group nat string regex

text \<open>A matcher thread: bytes consumed so far, the text still to read, the capture slots.\<close>

record mstate =
  pos :: nat
  rest :: string
  caps :: "string list"

definition inRange :: "char \<Rightarrow> char \<times> char \<Rightarrow> bool" where
  "inRange c r = ((of_char (fst r) :: int) \<le> of_char c \<and> (of_char c :: int) \<le> of_char (snd r))"

definition inClass :: "bool \<Rightarrow> (char \<times> char) list \<Rightarrow> char \<Rightarrow> bool" where
  "inClass neg rs c = (list_ex (inRange c) rs \<noteq> neg)"

fun stripPrefix :: "string \<Rightarrow> string \<Rightarrow> string option" where
  "stripPrefix [] s = Some s"
| "stripPrefix (p # ps) [] = None"
| "stripPrefix (p # ps) (c # cs) = (if p = c then stripPrefix ps cs else None)"

text \<open>
  Greedy iteration of a matcher \<open>f\<close>: every way of doing one more round (in \<open>f\<close>'s order of
  preference) comes before stopping here. A round that consumes nothing is not repeated, so
  the length of the remaining text bounds the number of rounds.
\<close>

fun iter :: "nat \<Rightarrow> (mstate \<Rightarrow> mstate list) \<Rightarrow> mstate \<Rightarrow> mstate list" where
  "iter 0 f st = [st]"
| "iter (Suc n) f st =
     concat (map (\<lambda>st'. if length (rest st') < length (rest st) then iter n f st' else [])
                 (f st)) @ [st]"

text \<open>
  All ways to match a regex at a thread, in order of preference (the order in which a
  backtracking matcher finds them): the head of the list is the leftmost-first match.
\<close>

primrec run :: "regex \<Rightarrow> mstate \<Rightarrow> mstate list" where
  "run Bol st = (if pos st = 0 then [st] else [])"
| "run Eol st = (if rest st = [] then [st] else [])"
| "run (Lit p) st =
     (case stripPrefix p (rest st) of
        None \<Rightarrow> []
      | Some s' \<Rightarrow> [st\<lparr>pos := pos st + length p, rest := s'\<rparr>])"
| "run (Cls neg rs) st =
     (case rest st of
        [] \<Rightarrow> []
      | c # cs \<Rightarrow> if inClass neg rs c then [st\<lparr>pos := pos st + 1, rest := cs\<rparr>] else [])"
| "run (Seq rs) st = fold (\<lambda>f sts. concat (map f sts)) (map run rs) [st]"
| "run (Star r) st = iter (length (rest st)) (run r) st"
| "run (Plus r) st = concat (map (\<lambda>st'. iter (length (rest st')) (run r) st') (run r st))"
| "run (Opt r) st = run r st @ [st]"
| "run (Group i n r) st =
     map (\<lambda>st'. st'\<lparr>caps := (caps st')[i := take (pos st' - pos st) (rest st)]\<rparr>) (run r st)"

text \<open>The capture groups of a regex, in the order of their opening parentheses.\<close>

primrec groups :: "regex \<Rightarrow> (nat \<times> string) list" where
  "groups Bol = []"
| "groups Eol = []"
| "groups (Lit p) = []"
| "groups (Cls neg rs) = []"
| "groups (Seq rs) = concat (map groups rs)"
| "groups (Star r) = groups r"
| "groups (Plus r) = groups r"
| "groups (Opt r) = groups r"
| "groups (Group i n r) = (i, n) # groups r"

text \<open>\<^verbatim>\<open>(*Regexp).SubexpNames\<close>: slot 0 is the whole match and has the empty name.\<close>

definition SubexpNames :: "regex \<Rightarrow> string list" where
  "SubexpNames r = [] # map snd (groups r)"

text \<open>
  \<^verbatim>\<open>(*Regexp).FindStringSubmatch\<close>: the match at the leftmost start offset that has one,
  and there the preferred one; slot 0 holds the matched text, a group that took no part holds
  the empty string; \<open>None\<close> is Go's nil.
\<close>

fun findFrom :: "regex \<Rightarrow> string \<Rightarrow> nat \<Rightarrow> nat \<Rightarrow> string list option" where
  "findFrom r s i 0 = None"
| "findFrom r s i (Suc k) =
     (case run r \<lparr>pos = i, rest = drop i s, caps = replicate (length (SubexpNames r)) []\<rparr> of
        [] \<Rightarrow> findFrom r s (Suc i) k
      | st # _ \<Rightarrow> Some ((caps st)[0 := take (pos st - i) (drop i s)]))"

definition FindStringSubmatch :: "regex \<Rightarrow> string \<Rightarrow> string list option" where
  "FindStringSubmatch r s = findFrom r s 0 (Suc (length s))"

text \<open>The Perl classes of Go's syntax: \<^verbatim>\<open>\s\<close> is \<^verbatim>\<open>[\t\n\f\r ]\<close>, \<^verbatim>\<open>\d\<close> is \<^verbatim>\<open>[0-9]\<close>,
  and \<^verbatim>\<open>.\<close> is every character but the newline.\<close>

definition rx_s :: regex where
  "rx_s = Cls False [(CHR 0x09, CHR 0x0A), (CHR 0x0C, CHR 0x0D), (CHR '' '', CHR '' '')]"

definition rx_d :: regex where
  "rx_d = Cls False [(CHR ''0'', CHR ''9'')]"

definition rx_dot :: regex where
  "rx_dot = Cls True [(CHR 0x0A, CHR 0x0A)]"

definition rx_set :: regex where
  "rx_set = Cls False [(CHR ''A'', CHR ''Z''), (CHR ''0'', CHR ''9''), (CHR ''_'', CHR ''_'')]"

text \<open>Magic Arena format:
  \<^verbatim>\<open>^\s*(?P<Count>\d+)\s+(?P<Name>.+)\s+\((?P<Set>[A-Z0-9_]+)\)(\s+(?P<NumberInSet>[\d]+[ab]*))?$\<close>\<close>

definition arenaRegexp :: regex where
  "arenaRegexp = Seq
     [Bol, Star rx_s, Group 1 ''Count'' (Plus rx_d), Plus rx_s,
      Group 2 ''Name'' (Plus rx_dot), Plus rx_s,
      Lit ''('', Group 3 ''Set'' (Plus rx_set), Lit '')'',
      Opt (Group 4 [] (Seq [Plus rx_s,
             Group 5 ''NumberInSet''
               (Seq [Plus rx_d, Star (Cls False [(CHR ''a'', CHR ''b'')])])])),
      Eol]"

text \<open>Magic Workstation format:
  \<^verbatim>\<open>^(?P<Sideboard>SB:)?\s*(?P<Count>\d+)\s+\[(?P<Set>[A-Z0-9_]+)\]\s+(?P<Name>.+)$\<close>\<close>

definition workstationRegexp :: regex where
  "workstationRegexp = Seq
     [Bol, Opt (Group 1 ''Sideboard'' (Lit ''SB:'')), Star rx_s,
      Group 2 ''Count'' (Plus rx_d), Plus rx_s,
      Lit ''['', Group 3 ''Set'' (Plus rx_set), Lit '']'', Plus rx_s,
      Group 4 ''Name'' (Plus rx_dot), Eol]"

text \<open>Standard format (MTGO, etc.):
  \<^verbatim>\<open>^(?P<Sideboard>SB:)?\s*(?P<Count>\d+)x?\s+(?P<Name>[^#]+)(\s+#(?P<Comment>.*))?$\<close>\<close>

definition standardRegexp :: regex where
  "standardRegexp = Seq
     [Bol, Opt (Group 1 ''Sideboard'' (Lit ''SB:'')), Star rx_s,
      Group 2 ''Count'' (Plus rx_d), Opt (Lit ''x''), Plus rx_s,
      Group 3 ''Name'' (Plus (Cls True [(CHR ''#'', CHR ''#'')])),
      Opt (Group 4 [] (Seq [Plus rx_s, Lit ''#'', Group 5 ''Comment'' (Star rx_dot)])),
      Eol]"

definition cardLineRegexps :: "regex list" where
  "cardLineRegexps = [arenaRegexp, workstationRegexp, standardRegexp]"

subsection \<open>Library functions on strings and integers\<close>

text \<open>\<^verbatim>\<open>strings.HasPrefix\<close> and \<^verbatim>\<open>strings.Contains\<close>.\<close>

definition HasPrefix :: "string \<Rightarrow> string \<Rightarrow> bool" where
  "HasPrefix s p = (stripPrefix p s \<noteq> None)"

fun Contains :: "string \<Rightarrow> string \<Rightarrow> bool" where
  "Contains [] sub = (sub = [])"
| "Contains (c # cs) sub = (HasPrefix (c # cs) sub \<or> Contains cs sub)"

text \<open>\<^verbatim>\<open>strings.Replace(s, old, new, 1)\<close>: the leftmost occurrence of \<open>old\<close> is replaced.\<close>

fun ReplaceFirst :: "string \<Rightarrow> string \<Rightarrow> string \<Rightarrow> string" where
  "ReplaceFirst [] old new = (if old = [] then new else [])"
| "ReplaceFirst (c # cs) old new =
     (case stripPrefix old (c # cs) of
        Some r \<Rightarrow> new @ r
      | None \<Rightarrow> c # ReplaceFirst cs old new)"

text \<open>
  \<^verbatim>\<open>strings.TrimSpace\<close> removes the leading and trailing white space as Unicode defines it.
  On bytes, these are the UTF-8 encodings of the code points for which
  \<^verbatim>\<open>unicode.IsSpace\<close> holds: U+0009 to U+000D, U+0020, U+0085, U+00A0, U+1680,
  U+2000 to U+200A, U+2028, U+2029, U+202F, U+205F and U+3000.
\<close>

definition spaceRunes :: "string list" where
  "spaceRunes =
     [[CHR 0x09], [CHR 0x0A], [CHR 0x0B], [CHR 0x0C], [CHR 0x0D], [CHR 0x20],
      [CHR 0xC2, CHR 0x85], [CHR 0xC2, CHR 0xA0], [CHR 0xE1, CHR 0x9A, CHR 0x80],
      [CHR 0xE2, CHR 0x80, CHR 0x80], [CHR 0xE2, CHR 0x80, CHR 0x81],
      [CHR 0xE2, CHR 0x80, CHR 0x82], [CHR 0xE2, CHR 0x80, CHR 0x83],
      [CHR 0xE2, CHR 0x80, CHR 0x84], [CHR 0xE2, CHR 0x80, CHR 0x85],
      [CHR 0xE2, CHR 0x80, CHR 0x86], [CHR 0xE2, CHR 0x80, CHR 0x87],
      [CHR 0xE2, CHR 0x80, CHR 0x88], [CHR 0xE2, CHR 0x80, CHR 0x89],
      [CHR 0xE2, CHR 0x80, CHR 0x8A], [CHR 0xE2, CHR 0x80, CHR 0xA8],
      [CHR 0xE2, CHR 0x80, CHR 0xA9], [CHR 0xE2, CHR 0x80, CHR 0xAF],
      [CHR 0xE2, CHR 0x81, CHR 0x9F], [CHR 0xE3, CHR 0x80, CHR 0x80]]"

text \<open>The number of bytes of the rune of \<open>encs\<close> that \<open>s\<close> starts with, 0 when there is none.\<close>

definition runeLen :: "string list \<Rightarrow> string \<Rightarrow> nat" where
  "runeLen encs s = (case find (\<lambda>p. stripPrefix p s \<noteq> None) encs of None \<Rightarrow> 0 | Some p \<Rightarrow> length p)"

fun trimLeft :: "string list \<Rightarrow> string \<Rightarrow> string" where
  "trimLeft encs s =
     (if s = [] \<or> runeLen encs s = 0 then s else trimLeft encs (drop (runeLen encs s) s))"

declare trimLeft.simps [simp del]

definition TrimSpace :: "string \<Rightarrow> string" where
  "TrimSpace s = rev (trimLeft (map rev spaceRunes) (rev (trimLeft spaceRunes s)))"

text \<open>The two's complement wrap-around of Go's 64-bit \<^verbatim>\<open>int\<close>.\<close>

definition wrap64 :: "int \<Rightarrow> int" where
  "wrap64 x = (x + 2 ^ 63) mod 2 ^ 64 - 2 ^ 63"

text \<open>
  \<^verbatim>\<open>strconv.Atoi\<close>: an optional sign and at least one decimal digit, nothing else; \<open>None\<close>
  is the error return, also when the value does not fit the 64-bit \<^verbatim>\<open>int\<close>.
\<close>

fun parseDigits :: "string \<Rightarrow> int \<Rightarrow> int option" where
  "parseDigits [] acc = Some acc"
| "parseDigits (c # cs) acc =
     (if inRange c (CHR ''0'', CHR ''9'')
      then parseDigits cs (10 * acc + (of_char c - of_char CHR ''0''))
      else None)"

definition Atoi :: "string \<Rightarrow> int option" where
  "Atoi s =
     (let neg = (s \<noteq> [] \<and> hd s = CHR ''-'');
          ds = (if s \<noteq> [] \<and> (hd s = CHR ''-'' \<or> hd s = CHR ''+'') then tl s else s)
      in if ds = [] then None
         else case parseDigits ds 0 of
                None \<Rightarrow> None
              | Some n \<Rightarrow>
                  if neg then (if n \<le> 2 ^ 63 then Some (- n) else None)
                  else (if n < 2 ^ 63 then Some n else None))"

text \<open>
  Modelled from the spec: \<^verbatim>\<open>plugins.IndexOf\<close> belongs to a package outside the sources at
  hand. The parser uses it for the "field-index mapping" of a grammar, the index of a named
  group among the group names, and tests the result against -1: it is the index of the first
  element equal to the key, and -1 when there is none.
\<close>

fun IndexOf :: "string \<Rightarrow> string list \<Rightarrow> int" where
  "IndexOf x [] = - 1"
| "IndexOf x (y # ys) = (if x = y then 0 else (let i = IndexOf x ys in if i = - 1 then - 1 else i + 1))"

subsection \<open>Zone collections\<close>

datatype DeckType = Main | Sideboard | Maybeboard

record CardInfo =
  Name :: string
  Set :: "string option"

record CardNames =
  Names :: "CardInfo list"
  Counts :: "string \<rightharpoonup> int"

datatype panic = NilDereference | IndexOutOfRange

datatype error = ErrTooLong | ErrNoImage string | ErrExternal string

definition NewCardNames :: CardNames where
  "NewCardNames = \<lparr>Names = [], Counts = Map.empty\<rparr>"

definition InsertCount :: "CardNames \<Rightarrow> string \<Rightarrow> string option \<Rightarrow> int \<Rightarrow> CardNames" where
  "InsertCount c name setp count =
     (case Counts c name of
        None \<Rightarrow> c\<lparr>Names := Names c @ [\<lparr>Name = name, Set = setp\<rparr>],
                  Counts := (Counts c)(name \<mapsto> count)\<rparr>
      | Some old \<Rightarrow> c\<lparr>Counts := (Counts c)(name \<mapsto> wrap64 (old + count))\<rparr>)"

definition Insert :: "CardNames \<Rightarrow> string \<Rightarrow> string option \<Rightarrow> CardNames" where
  "Insert c name setp = InsertCount c name setp 1"

text \<open>
  The merge of a provisional sideboard into main, the block that \<^verbatim>\<open>parseDeckLine\<close> and
  \<^verbatim>\<open>parseDeckFile\<close> both contain: all the sideboard's names are appended to main's, and
  for each key of the sideboard's counts main's count is raised by the sideboard's, or set to
  it. Each round of the loop over \<^verbatim>\<open>side.Counts\<close> reads and writes main's entry of its own
  key only, so the result is this map whatever order Go visits the keys in. Main is
  dereferenced without a nil check.
\<close>

definition mergeCounts :: "(string \<rightharpoonup> int) \<Rightarrow> (string \<rightharpoonup> int) \<Rightarrow> (string \<rightharpoonup> int)" where
  "mergeCounts mc sc =
     (\<lambda>name. case sc name of
                None \<Rightarrow> mc name
              | Some count \<Rightarrow>
                  (case mc name of
                     Some originalCount \<Rightarrow> Some (wrap64 (originalCount + count))
                   | None \<Rightarrow> Some count))"

definition mergeSideboard :: "CardNames option \<Rightarrow> CardNames \<Rightarrow> panic + CardNames" where
  "mergeSideboard mo sd =
     (case mo of
        None \<Rightarrow> Inl NilDereference
      | Some m \<Rightarrow> Inr (m\<lparr>Names := Names m @ Names sd, Counts := mergeCounts (Counts m) (Counts sd)\<rparr>))"

subsection \<open>The line parser\<close>

text \<open>
  The state that \<^verbatim>\<open>parseDeckFile\<close> threads through \<^verbatim>\<open>parseDeckLine\<close>: the three
  zone pointers, the current zone, whether a line with the \<^verbatim>\<open>SB:\<close> prefix was seen, and the
  number of empty lines counted (a natural number: it only grows by one per line).
\<close>

record pstate =
  main :: "CardNames option"
  side :: "CardNames option"
  maybe :: "CardNames option"
  step :: DeckType
  sbLineFound :: bool
  emptyLineCount :: nat

text \<open>
  The first line with the \<^verbatim>\<open>SB:\<close> prefix: the zone becomes the sideboard, a sideboard
  that already has names is merged into main and dropped, and the flag is set.
\<close>

definition sbSwitch :: "pstate \<Rightarrow> panic + pstate" where
  "sbSwitch st =
     (case side st of
        None \<Rightarrow> Inr (st\<lparr>step := Sideboard, sbLineFound := True\<rparr>)
      | Some sd \<Rightarrow>
          if length (Names sd) > 0
          then (case mergeSideboard (main st) sd of
                  Inl p \<Rightarrow> Inl p
                | Inr m \<Rightarrow> Inr (st\<lparr>main := Some m, side := None, step := Sideboard,
                                   sbLineFound := True\<rparr>))
          else Inr (st\<lparr>step := Sideboard, sbLineFound := True\<rparr>))"

text \<open>The set of a matched line: absent when the grammar has no such group, when the
  group is empty, and for the placeholder \<^verbatim>\<open>000\<close>.\<close>

definition setOfMatch :: "string list \<Rightarrow> string list \<Rightarrow> string option" where
  "setOfMatch groupNames matches =
     (let setIdx = IndexOf ''Set'' groupNames
      in if setIdx \<noteq> - 1 \<and> length (matches ! nat setIdx) > 0
         then (if matches ! nat setIdx = ''000'' then None else Some (matches ! nat setIdx))
         else None)"

text \<open>The name of a matched line: trimmed, the first \<^verbatim>\<open>///\<close> replaced by \<^verbatim>\<open>//\<close>.\<close>

definition nameOfMatch :: "string \<Rightarrow> string" where
  "nameOfMatch m =
     (let name = TrimSpace m
      in if Contains name ''///'' then ReplaceFirst name ''///'' ''//'' else name)"

text \<open>The card goes to the collection of the current zone, created on first use.\<close>

definition orNew :: "CardNames option \<Rightarrow> CardNames" where
  "orNew c = (case c of None \<Rightarrow> NewCardNames | Some d \<Rightarrow> d)"

definition fileCard :: "pstate \<Rightarrow> string \<Rightarrow> string option \<Rightarrow> int \<Rightarrow> pstate" where
  "fileCard st name setp count =
     (case step st of
        Main \<Rightarrow> st\<lparr>main := Some (InsertCount (orNew (main st)) name setp count)\<rparr>
      | Sideboard \<Rightarrow> st\<lparr>side := Some (InsertCount (orNew (side st)) name setp count)\<rparr>
      | Maybeboard \<Rightarrow> st\<lparr>maybe := Some (InsertCount (orNew (maybe st)) name setp count)\<rparr>)"

text \<open>
  The loop of \<^verbatim>\<open>parseDeckLine\<close> over the grammars. \<^verbatim>\<open>continue\<close> is the recursive call
  on the remaining grammars, \<^verbatim>\<open>break\<close> is the return. The switch to the sideboard comes
  before the count is parsed, so it stays in force when \<^verbatim>\<open>strconv.Atoi\<close> fails and the
  next grammar is tried.
\<close>

fun parseDeckLineLoop :: "regex list \<Rightarrow> string \<Rightarrow> pstate \<Rightarrow> panic + pstate" where
  "parseDeckLineLoop [] line st = Inr st"
| "parseDeckLineLoop (regex # rs) line st =
     (case FindStringSubmatch regex line of
        None \<Rightarrow> parseDeckLineLoop rs line st
      | Some matches \<Rightarrow>
          if IndexOf ''Count'' (SubexpNames regex) = - 1 then parseDeckLineLoop rs line st
          else if IndexOf ''Name'' (SubexpNames regex) = - 1 then parseDeckLineLoop rs line st
          else
            (case (if IndexOf ''Sideboard'' (SubexpNames regex) \<noteq> - 1
                      \<and> length (matches ! nat (IndexOf ''Sideboard'' (SubexpNames regex))) > 0
                      \<and> \<not> sbLineFound st
                   then sbSwitch st else Inr st) of
               Inl p \<Rightarrow> Inl p
             | Inr st1 \<Rightarrow>
                 (case Atoi (matches ! nat (IndexOf ''Count'' (SubexpNames regex))) of
                    None \<Rightarrow> parseDeckLineLoop rs line st1
                  | Some count \<Rightarrow>
                      Inr (fileCard st1
                             (nameOfMatch (matches ! nat (IndexOf ''Name'' (SubexpNames regex))))
                             (setOfMatch (SubexpNames regex) matches)
                             count))))"

definition parseDeckLine :: "string \<Rightarrow> pstate \<Rightarrow> panic + pstate" where
  "parseDeckLine line st = parseDeckLineLoop cardLineRegexps line st"

subsection \<open>The file parser\<close>

text \<open>
  \<^verbatim>\<open>bufio.Scanner\<close> with the default split function \<^verbatim>\<open>ScanLines\<close>, on a reader that
  delivers the whole text and then the end of file. A line ends at a newline; one carriage
  return before it is dropped; text after the last newline is a line when it is not empty. The
  scanner stops with \<^verbatim>\<open>ErrTooLong\<close> at a line whose 65536 first bytes hold no newline.
\<close>

fun rawLines :: "string \<Rightarrow> string \<Rightarrow> string list" where
  "rawLines [] cur = (if cur = [] then [] else [cur])"
| "rawLines (c # cs) cur = (if c = CHR 0x0A then cur # rawLines cs [] else rawLines cs (cur @ [c]))"

definition dropCR :: "string \<Rightarrow> string" where
  "dropCR l = (if l \<noteq> [] \<and> last l = CHR 0x0D then butlast l else l)"

definition MaxScanTokenSize :: int where
  "MaxScanTokenSize = 64 * 1024"

fun scanTokens :: "string list \<Rightarrow> string list \<times> error option" where
  "scanTokens [] = ([], None)"
| "scanTokens (l # ls) =
     (if MaxScanTokenSize \<le> int (length l) then ([], Some ErrTooLong)
      else (dropCR l # fst (scanTokens ls), snd (scanTokens ls)))"

definition scanLines :: "string \<Rightarrow> string list \<times> error option" where
  "scanLines file = scanTokens (rawLines file [])"

text \<open>One round of the loop over the scanner's lines.\<close>

definition parseFileLine :: "string \<Rightarrow> pstate \<Rightarrow> panic + pstate" where
  "parseFileLine line st =
     (if length line = 0 then
        (case main st of
           None \<Rightarrow> Inr st
         | Some m \<Rightarrow>
             if length (Names m) > 0
             then Inr (st\<lparr>step := (if step st = Main then Sideboard else step st),
                         emptyLineCount := emptyLineCount st + 1\<rparr>)
             else Inr st)
      else if HasPrefix line ''Sideboard'' then
        Inr (if step st = Main then st\<lparr>step := Sideboard\<rparr> else st)
      else if HasPrefix line ''Maybeboard'' then Inr (st\<lparr>step := Maybeboard\<rparr>)
      else if HasPrefix line ''//'' then Inr st
      else parseDeckLine line st)"

fun parseLines :: "string list \<Rightarrow> pstate \<Rightarrow> panic + pstate" where
  "parseLines [] st = Inr st"
| "parseLines (line # ls) st =
     (case parseFileLine line st of Inl p \<Rightarrow> Inl p | Inr st' \<Rightarrow> parseLines ls st')"

definition initState :: pstate where
  "initState = \<lparr>main = None, side = None, maybe = None, step = Main,
                 sbLineFound = False, emptyLineCount = 0\<rparr>"

text \<open>After the last line: several empty lines and no \<^verbatim>\<open>SB:\<close> line mean that there was
  no sideboard, and it is merged into main.\<close>

definition endOfInput :: "pstate \<Rightarrow> panic + pstate" where
  "endOfInput st =
     (case side st of
        None \<Rightarrow> Inr st
      | Some sd \<Rightarrow>
          if \<not> sbLineFound st \<and> emptyLineCount st > 1
          then (case mergeSideboard (main st) sd of
                  Inl p \<Rightarrow> Inl p
                | Inr m \<Rightarrow> Inr (st\<lparr>main := Some m, side := None\<rparr>))
          else Inr st)"

text \<open>\<^verbatim>\<open>parseDeckFile\<close> returns the three zones and the scanner's error, if any.\<close>

type_synonym zones = "CardNames option \<times> CardNames option \<times> CardNames option \<times> error option"

definition parseDeckFile :: "string \<Rightarrow> panic + zones" where
  "parseDeckFile file =
     (case parseLines (fst (scanLines file)) initState of
        Inl p \<Rightarrow> Inl p
      | Inr st \<Rightarrow>
          (case endOfInput st of
             Inl p \<Rightarrow> Inl p
           | Inr st' \<Rightarrow> Inr (main st', side st', maybe st', snd (scanLines file))))"

subsection \<open>Card data and the lookup collaborator\<close>

text \<open>
  The fields of the card-data library's types that the resolver reads. A layout and a
  component are strings, as in the library. The image set of a card is a pointer, that of a
  face is a value.
\<close>

record ImageURIs =
  Small :: string
  Normal :: string
  Large :: string
  PNG :: string

record RelatedCard =
  Component :: string
  URI :: string

record CardFace =
  faceName :: string
  faceImageURIs :: ImageURIs

record Card =
  ID :: string
  cardName :: string
  Layout :: string
  AllParts :: "RelatedCard list"
  CardFaces :: "CardFace list"
  cardImageURIs :: "ImageURIs option"
  HighresImage :: bool
  Oversized :: bool

type_synonym Ruling = string

definition LayoutMeld :: string where "LayoutMeld = ''meld''"
definition LayoutFlip :: string where "LayoutFlip = ''flip''"
definition LayoutSplit :: string where "LayoutSplit = ''split''"
definition LayoutAdventure :: string where "LayoutAdventure = ''adventure''"
definition ComponentMeldResult :: string where "ComponentMeldResult = ''meld_result''"

text \<open>
  Modelled from the spec: the quality constants are declared in a file of the package that is
  not at hand; the spec names the "four quality tiers (\<^verbatim>\<open>small\<close>, \<^verbatim>\<open>normal\<close>, \<^verbatim>\<open>large\<close>,
  \<^verbatim>\<open>png\<close>)" and the default \<^verbatim>\<open>normal\<close>.
\<close>

definition small :: string where "small = ''small''"
definition normal :: string where "normal = ''normal''"
definition large :: string where "large = ''large''"
definition png :: string where "png = ''png''"

definition defaultQuality :: string where "defaultQuality = normal"

text \<open>The output types of the plugin interface: a card with at most one alternative
  state, and a deck.\<close>

datatype PCardInfo =
  PCardInfo (pName: string) (Description: string) (ImageURL: string) (Count: int)
            (pOversized: bool) (AlternativeState: "PCardInfo option")

datatype CardSize = CardSizeStandard | CardSizeSmall

record Deck =
  deckName :: string
  BackURL :: string
  deckCardSize :: CardSize
  Cards :: "PCardInfo list"

text \<open>The validated options: each key is present with a value of its type, or absent.\<close>

record options =
  quality :: "string option"
  show_rulings :: "bool option"

text \<open>
  Everything the resolver takes from outside \<^verbatim>\<open>parser.go\<close>: the three calls of the
  card-data client, each of which may change the state \<open>'s\<close> of the outside world and returns
  a card or an error; the three description builders; the URL of the default card back.
\<close>

record 's env =
  GetCardByName :: "'s \<Rightarrow> string \<Rightarrow> bool \<Rightarrow> string \<Rightarrow> (error + Card) \<times> 's"
  GetRulings :: "'s \<Rightarrow> string \<Rightarrow> (error + Ruling list) \<times> 's"
  GetCard :: "'s \<Rightarrow> string \<Rightarrow> (error + Card) \<times> 's"
  buildCardDescription :: "Card \<Rightarrow> Ruling list \<Rightarrow> string"
  buildCardFacesDescription :: "CardFace list \<Rightarrow> Ruling list \<Rightarrow> string"
  buildCardFaceDescription :: "CardFace \<Rightarrow> Ruling list \<Rightarrow> string"
  defaultBack :: string

datatype logEntry = LogWarn string | LogError string

subsection \<open>Image selection\<close>

text \<open>\<^verbatim>\<open>getImageURL\<close> reads a field of \<open>uris\<close> in the four known cases only; an unknown
  quality gives the empty string.\<close>

definition deref :: "'a option \<Rightarrow> ('a \<Rightarrow> 'b) \<Rightarrow> logEntry list \<Rightarrow> panic + ('b \<times> logEntry list)" where
  "deref p f l = (case p of None \<Rightarrow> Inl NilDereference | Some v \<Rightarrow> Inr (f v, l))"

definition getImageURL :: "ImageURIs option \<Rightarrow> bool \<Rightarrow> string \<Rightarrow> panic + (string \<times> logEntry list)" where
  "getImageURL uris highResAvailable imageQuality =
     (if imageQuality = small then deref uris Small []
      else if imageQuality = normal then deref uris Normal []
      else if imageQuality = large then
        (if highResAvailable then deref uris Large []
         else deref uris Normal
                [LogWarn ''High-resolution image not available, using normal quality instead of large''])
      else if imageQuality = png then
        (if highResAvailable then deref uris PNG []
         else deref uris Normal
                [LogWarn ''High-resolution image not available, using normal quality instead of png''])
      else Inr ([], []))"

subsection \<open>Zone resolution\<close>

text \<open>The deck being filled, the log written so far and the state of the outside world.\<close>

record 's rstate =
  deck :: Deck
  logs :: "logEntry list"
  world :: 's

definition addCard :: "'s rstate \<Rightarrow> logEntry list \<Rightarrow> PCardInfo \<Rightarrow> 's rstate" where
  "addCard st l c = st\<lparr>deck := (deck st)\<lparr>Cards := Cards (deck st) @ [c]\<rparr>, logs := logs st @ l\<rparr>"

definition logError :: "'s rstate \<Rightarrow> string \<Rightarrow> 's rstate" where
  "logError st msg = st\<lparr>logs := logs st @ [LogError msg]\<rparr>"

text \<open>\<^verbatim>\<open>strings.Split\<close> at a one-byte separator.\<close>

fun Split :: "string \<Rightarrow> char \<Rightarrow> string \<Rightarrow> string list" where
  "Split [] sep cur = [cur]"
| "Split (c # cs) sep cur = (if c = sep then cur # Split cs sep [] else Split cs sep (cur @ [c]))"

text \<open>
  The three layout branches of the loop body, for a card whose lookup (and rulings) succeeded.
  The second component of the result is the error of a \<^verbatim>\<open>return deck, err\<close>; \<open>None\<close> means
  that the loop goes on, after an append or after a \<^verbatim>\<open>continue\<close>.
\<close>

text \<open>The URI of the first related part that is the meld result, empty when there is none
  (the loop over \<^verbatim>\<open>card.AllParts\<close> with its \<^verbatim>\<open>break\<close>).\<close>

definition meldResultURI :: "Card \<Rightarrow> string" where
  "meldResultURI crd =
     (case find (\<lambda>part. Component part = ComponentMeldResult) (AllParts crd) of
        None \<Rightarrow> [] | Some part \<Rightarrow> URI part)"

definition meldCard ::
  "'s env \<Rightarrow> string \<Rightarrow> int \<Rightarrow> Card \<Rightarrow> Ruling list \<Rightarrow> 's rstate \<Rightarrow> panic + ('s rstate \<times> error option)" where
  "meldCard env imageQuality count crd rulings st =
     (if length (AllParts crd) = 0
      then Inr (logError st (''No meld parts found for card '' @ cardName crd), None)
      else
        (if length (meldResultURI crd) = 0
            then Inr (logError st (''No meld result found for card '' @ cardName crd), None)
            else
              (case GetCard env (world st) (last (Split (meldResultURI crd) CHR ''/'' [])) of
                 (Inl err, w) \<Rightarrow> Inr (logError (st\<lparr>world := w\<rparr>) ''Scryfall client error'', None)
               | (Inr meldResult, w) \<Rightarrow>
                   (case getImageURL (cardImageURIs crd) (HighresImage crd) imageQuality of
                      Inl p \<Rightarrow> Inl p
                    | Inr (imageURL, l1) \<Rightarrow>
                        (case getImageURL (cardImageURIs meldResult) (HighresImage meldResult)
                                imageQuality of
                           Inl p \<Rightarrow> Inl p
                         | Inr (meldResultImageURL, l2) \<Rightarrow>
                             Inr (addCard (st\<lparr>world := w\<rparr>) (l1 @ l2)
                                    (PCardInfo (cardName crd)
                                       (buildCardDescription env crd rulings) imageURL count False
                                       (Some (PCardInfo (cardName meldResult)
                                                (buildCardDescription env meldResult rulings)
                                                meldResultImageURL 0 True None))),
                                  None))))))"

definition singleFaceCard ::
  "'s env \<Rightarrow> string \<Rightarrow> int \<Rightarrow> Card \<Rightarrow> Ruling list \<Rightarrow> 's rstate \<Rightarrow> panic + ('s rstate \<times> error option)" where
  "singleFaceCard env imageQuality count crd rulings st =
     (if cardImageURIs crd = None
      then Inr (st, Some (ErrNoImage (''no image found for card '' @ cardName crd)))
      else
        (case getImageURL (cardImageURIs crd) (HighresImage crd) imageQuality of
           Inl p \<Rightarrow> Inl p
         | Inr (imageURL, l) \<Rightarrow>
             Inr (addCard st l
                    (PCardInfo (cardName crd)
                       (if length (CardFaces crd) > 1
                        then buildCardFacesDescription env (CardFaces crd) rulings
                        else buildCardDescription env crd rulings)
                       imageURL count (Oversized crd) None),
                  None)))"

definition transformCard ::
  "'s env \<Rightarrow> string \<Rightarrow> int \<Rightarrow> Card \<Rightarrow> Ruling list \<Rightarrow> 's rstate \<Rightarrow> panic + ('s rstate \<times> error option)" where
  "transformCard env imageQuality count crd rulings st =
     (case CardFaces crd of
        front # back # _ \<Rightarrow>
          (case getImageURL (Some (faceImageURIs front)) (HighresImage crd) imageQuality of
             Inl p \<Rightarrow> Inl p
           | Inr (frontImageURL, l1) \<Rightarrow>
               (case getImageURL (Some (faceImageURIs back)) (HighresImage crd) imageQuality of
                  Inl p \<Rightarrow> Inl p
                | Inr (backImageURL, l2) \<Rightarrow>
                    Inr (addCard st (l1 @ l2)
                           (PCardInfo (faceName front)
                              (buildCardFaceDescription env front rulings) frontImageURL count False
                              (Some (PCardInfo (faceName back)
                                       (buildCardFaceDescription env back rulings)
                                       backImageURL 0 False None))),
                         None)))
      | _ \<Rightarrow> Inl IndexOutOfRange)"

definition layoutCard ::
  "'s env \<Rightarrow> string \<Rightarrow> int \<Rightarrow> Card \<Rightarrow> Ruling list \<Rightarrow> 's rstate \<Rightarrow> panic + ('s rstate \<times> error option)" where
  "layoutCard env imageQuality count crd rulings st =
     (if Layout crd = LayoutMeld then meldCard env imageQuality count crd rulings st
      else if length (CardFaces crd) = 0 \<or> Layout crd = LayoutFlip
              \<or> Layout crd = LayoutSplit \<or> Layout crd = LayoutAdventure
      then singleFaceCard env imageQuality count crd rulings st
      else transformCard env imageQuality count crd rulings st)"

text \<open>The set option of the lookup: the card's set, or the empty string of a zero
  \<^verbatim>\<open>GetCardByNameOptions\<close>.\<close>

definition setOption :: "CardInfo \<Rightarrow> string" where
  "setOption cardInfo = (case Set cardInfo of None \<Rightarrow> [] | Some s \<Rightarrow> s)"

text \<open>The rulings are looked up only when the option \<^verbatim>\<open>show_rulings\<close> is present and
  true; otherwise they stay the nil slice.\<close>

definition fetchRulings :: "'s env \<Rightarrow> options \<Rightarrow> Card \<Rightarrow> 's \<Rightarrow> (error + Ruling list) \<times> 's" where
  "fetchRulings env opts crd w =
     (if show_rulings opts = Some True then GetRulings env w (ID crd) else (Inr [], w))"

text \<open>The body of the loop of \<^verbatim>\<open>cardNamesToDeck\<close>: the primary lookup, the rulings when
  asked for, then the layout branch. A missing key of the count map reads as 0.\<close>

definition resolveCard ::
  "'s env \<Rightarrow> string \<Rightarrow> options \<Rightarrow> (string \<rightharpoonup> int) \<Rightarrow> CardInfo \<Rightarrow> 's rstate \<Rightarrow> panic + ('s rstate \<times> error option)" where
  "resolveCard env imageQuality opts counts cardInfo st =
     (case GetCardByName env (world st) (Name cardInfo) False (setOption cardInfo) of
        (Inl err, w) \<Rightarrow> Inr (logError (st\<lparr>world := w\<rparr>) ''Scryfall client error'', Some err)
      | (Inr crd, w) \<Rightarrow>
          (case fetchRulings env opts crd w of
             (Inl err, w') \<Rightarrow>
               Inr (logError (st\<lparr>world := w'\<rparr>) ''Scryfall client error'', Some err)
           | (Inr rulings, w') \<Rightarrow>
               layoutCard env imageQuality
                 (case counts (Name cardInfo) of None \<Rightarrow> 0 | Some c \<Rightarrow> c)
                 crd rulings (st\<lparr>world := w'\<rparr>)))"

fun cardLoop ::
  "'s env \<Rightarrow> string \<Rightarrow> options \<Rightarrow> (string \<rightharpoonup> int) \<Rightarrow> CardInfo list \<Rightarrow> 's rstate \<Rightarrow> panic + ('s rstate \<times> error option)" where
  "cardLoop env imageQuality opts counts [] st = Inr (st, None)"
| "cardLoop env imageQuality opts counts (cardInfo # cs) st =
     (case resolveCard env imageQuality opts counts cardInfo st of
        Inl p \<Rightarrow> Inl p
      | Inr (st', Some err) \<Rightarrow> Inr (st', Some err)
      | Inr (st', None) \<Rightarrow> cardLoop env imageQuality opts counts cs st')"

text \<open>The image quality: the option \<^verbatim>\<open>quality\<close> when present, else the default.\<close>

definition imageQualityOf :: "options \<Rightarrow> string" where
  "imageQualityOf opts = (case quality opts of None \<Rightarrow> defaultQuality | Some q \<Rightarrow> q)"

text \<open>The empty deck that \<^verbatim>\<open>cardNamesToDeck\<close> starts from.\<close>

definition startState :: "'s env \<Rightarrow> string \<Rightarrow> logEntry list \<Rightarrow> 's \<Rightarrow> 's rstate" where
  "startState env name l w =
     \<lparr>deck = \<lparr>deckName = name, BackURL = defaultBack env, deckCardSize = CardSizeStandard,
              Cards = []\<rparr>,
      logs = l, world = w\<rparr>"

text \<open>
  \<^verbatim>\<open>cardNamesToDeck\<close>: the client is taken as created; \<open>cards\<close> is dereferenced without a
  nil check. The result is the deck as filled when the loop ended, next to the error, if any.
\<close>

definition cardNamesToDeck ::
  "'s env \<Rightarrow> CardNames option \<Rightarrow> string \<Rightarrow> options \<Rightarrow> logEntry list \<Rightarrow> 's \<Rightarrow> panic + ('s rstate \<times> error option)" where
  "cardNamesToDeck env cards name opts l w =
     (case cards of
        None \<Rightarrow> Inl NilDereference
      | Some c \<Rightarrow>
          cardLoop env (imageQualityOf opts) opts (Counts c) (Names c) (startState env name l w))"

subsection \<open>The entry point\<close>

text \<open>
  One of the three blocks of \<^verbatim>\<open>fromDeckFile\<close>: when the zone tested is present, the zone
  passed is resolved under the given name and its deck appended; an error ends the function
  with that error and no deck.
\<close>

type_synonym 's facc = "Deck list \<times> logEntry list \<times> 's"

definition addZone ::
  "'s env \<Rightarrow> options \<Rightarrow> CardNames option \<Rightarrow> CardNames option \<Rightarrow> string \<Rightarrow> 's facc \<Rightarrow> panic + (error + 's facc)" where
  "addZone env opts tested passed name acc =
     (if tested = None then Inr (Inr acc)
      else case cardNamesToDeck env passed name opts (fst (snd acc)) (snd (snd acc)) of
             Inl p \<Rightarrow> Inl p
           | Inr (st, Some err) \<Rightarrow> Inr (Inl err)
           | Inr (st, None) \<Rightarrow> Inr (Inr (fst acc @ [deck st], logs st, world st)))"

text \<open>
  The three blocks in sequence, on the zones that the parser returned. The third block tests
  the maybeboard and passes the sideboard.
\<close>

definition decksOfZones ::
  "'s env \<Rightarrow> options \<Rightarrow> string \<Rightarrow> CardNames option \<Rightarrow> CardNames option \<Rightarrow> CardNames option \<Rightarrow> 's \<Rightarrow> panic + (error + Deck list)" where
  "decksOfZones env opts name mainz sidez maybez w =
     (case addZone env opts mainz mainz name ([], [], w) of
        Inl p \<Rightarrow> Inl p
      | Inr (Inl err) \<Rightarrow> Inr (Inl err)
      | Inr (Inr acc1) \<Rightarrow>
          (case addZone env opts sidez sidez (name @ '' - Sideboard'') acc1 of
             Inl p \<Rightarrow> Inl p
           | Inr (Inl err) \<Rightarrow> Inr (Inl err)
           | Inr (Inr acc2) \<Rightarrow>
               (case addZone env opts maybez sidez (name @ '' - Maybeboard'') acc2 of
                  Inl p \<Rightarrow> Inl p
                | Inr (Inl err) \<Rightarrow> Inr (Inl err)
                | Inr (Inr acc3) \<Rightarrow> Inr (Inr (fst acc3)))))"

text \<open>
  \<^verbatim>\<open>fromDeckFile\<close>. The validation of the options belongs to another package: its result
  is the argument \<open>validated\<close>.
\<close>

definition fromDeckFile ::
  "'s env \<Rightarrow> error + options \<Rightarrow> string \<Rightarrow> string \<Rightarrow> 's \<Rightarrow> panic + (error + Deck list)" where
  "fromDeckFile env validated file name w =
     (case validated of
        Inl err \<Rightarrow> Inr (Inl err)
      | Inr opts \<Rightarrow>
          (case parseDeckFile file of
             Inl p \<Rightarrow> Inl p
           | Inr (mainz, sidez, maybez, Some err) \<Rightarrow> Inr (Inl err)
           | Inr (mainz, sidez, maybez, None) \<Rightarrow> decksOfZones env opts name mainz sidez maybez w))"

section \<open>Properties of the zones\<close>

text \<open>Every name in the sequence of a zone has a count, and it is at least 1.\<close>

definition positiveZone :: "CardNames option \<Rightarrow> bool" where
  "positiveZone z =
     (case z of
        None \<Rightarrow> True
      | Some c \<Rightarrow>
          list_all (\<lambda>ci. case Counts c (Name ci) of None \<Rightarrow> False | Some k \<Rightarrow> 1 \<le> k) (Names c))"

text \<open>
  The count that \<open>parseDeckLineLoop\<close> files for a line: that of the first grammar which
  matches, has the groups Count and Name, and whose count \<^verbatim>\<open>strconv.Atoi\<close> accepts.
\<close>

fun lineCountLoop :: "regex list \<Rightarrow> string \<Rightarrow> int option" where
  "lineCountLoop [] line = None"
| "lineCountLoop (regex # rs) line =
     (case FindStringSubmatch regex line of
        None \<Rightarrow> lineCountLoop rs line
      | Some matches \<Rightarrow>
          if IndexOf ''Count'' (SubexpNames regex) = - 1 \<or> IndexOf ''Name'' (SubexpNames regex) = - 1
          then lineCountLoop rs line
          else (case Atoi (matches ! nat (IndexOf ''Count'' (SubexpNames regex))) of
                  None \<Rightarrow> lineCountLoop rs line
                | Some count \<Rightarrow> Some count))"

text \<open>A line that the file loop hands to \<open>parseDeckLine\<close>.\<close>

definition isCardLine :: "string \<Rightarrow> bool" where
  "isCardLine line = (line \<noteq> [] \<and> \<not> HasPrefix line ''Sideboard''
                       \<and> \<not> HasPrefix line ''Maybeboard'' \<and> \<not> HasPrefix line ''//'')"

definition lineCount :: "string \<Rightarrow> int option" where
  "lineCount line = (if isCardLine line then lineCountLoop cardLineRegexps line else None)"

text \<open>The counts of the card lines of a file, in order.\<close>

definition countsOfLines :: "string list \<Rightarrow> int list" where
  "countsOfLines ls = concat (map (\<lambda>l. case lineCount l of None \<Rightarrow> [] | Some c \<Rightarrow> [c]) ls)"

text \<open>The count of a name in a zone, 0 when the zone or the name is absent.\<close>

definition zoneCount :: "CardNames option \<Rightarrow> string \<Rightarrow> int" where
  "zoneCount z n = (case z of None \<Rightarrow> 0 | Some c \<Rightarrow> (case Counts c n of None \<Rightarrow> 0 | Some k \<Rightarrow> k))"

text \<open>The invariant of the file loop behind \<open>positiveZone\<close>: in each zone every name of the
  sequence is a key of the count map and every count is at least 1, and for each name the
  counts of the three zones add up to at most \<open>T\<close>, the total of the counts read so far.\<close>

definition goodZone :: "CardNames option \<Rightarrow> bool" where
  "goodZone z =
     (case z of
        None \<Rightarrow> True
      | Some c \<Rightarrow> (\<forall>ci \<in> set (Names c). Counts c (Name ci) \<noteq> None)
                  \<and> (\<forall>n k. Counts c n = Some k \<longrightarrow> 1 \<le> k))"

definition countInv :: "int \<Rightarrow> pstate \<Rightarrow> bool" where
  "countInv T st =
     (goodZone (main st) \<and> goodZone (side st) \<and> goodZone (maybe st)
      \<and> (\<forall>n. zoneCount (main st) n + zoneCount (side st) n + zoneCount (maybe st) n \<le> T))"

section \<open>A small card database for the examples\<close>

text \<open>
  A lookup collaborator over the state "number of calls made so far": the name Unknown is not
  found, the name Bruna is a meld card without related parts, every other name is an
  ordinary single-faced card; a card looked up by identifier is never found.
\<close>

definition exampleURIs :: ImageURIs where
  "exampleURIs = \<lparr>Small = ''small.jpg'', Normal = ''normal.jpg'', Large = ''large.jpg'', PNG = ''card.png''\<rparr>"

definition plainCard :: "string \<Rightarrow> Card" where
  "plainCard n = \<lparr>ID = n, cardName = n, Layout = ''normal'', AllParts = [], CardFaces = [],
                  cardImageURIs = Some exampleURIs, HighresImage = True, Oversized = False\<rparr>"

definition meldOrphan :: Card where
  "meldOrphan = \<lparr>ID = ''bruna'', cardName = ''Bruna'', Layout = LayoutMeld, AllParts = [],
                 CardFaces = [], cardImageURIs = Some exampleURIs, HighresImage = True,
                 Oversized = False\<rparr>"

definition exampleEnv :: "nat env" where
  "exampleEnv =
     \<lparr>GetCardByName = (\<lambda>w n exact s.
         (if n = ''Unknown'' then Inl (ErrExternal ''not found'')
          else if n = ''Bruna'' then Inr meldOrphan else Inr (plainCard n), Suc w)),
      GetRulings = (\<lambda>w i. (Inr [], Suc w)),
      GetCard = (\<lambda>w i. (Inl (ErrExternal ''not found''), Suc w)),
      buildCardDescription = (\<lambda>c rs. cardName c),
      buildCardFacesDescription = (\<lambda>fs rs. []),
      buildCardFaceDescription = (\<lambda>f rs. faceName f),
      defaultBack = ''back.jpg''\<rparr>"

definition exampleOptions :: options where
  "exampleOptions = \<lparr>quality = None, show_rulings = None\<rparr>"

definition brokenZone :: CardNames where
  "brokenZone = \<lparr>Names = [\<lparr>Name = ''Forest'', Set = None\<rparr>, \<lparr>Name = ''Unknown'', Set = None\<rparr>,
                            \<lparr>Name = ''Island'', Set = None\<rparr>],
                  Counts = [''Forest'' \<mapsto> 4, ''Unknown'' \<mapsto> 1, ''Island'' \<mapsto> 2]\<rparr>"

definition forestResolved :: "nat rstate" where
  "forestResolved =
     \<lparr>deck = \<lparr>deckName = ''deck'', BackURL = ''back.jpg'', deckCardSize = CardSizeStandard,
              Cards = [PCardInfo ''Forest'' ''Forest'' ''normal.jpg'' 4 False None]\<rparr>,
      logs = [], world = 1\<rparr>"

definition meldZone :: CardNames where
  "meldZone = \<lparr>Names = [\<lparr>Name = ''Bruna'', Set = None\<rparr>, \<lparr>Name = ''Forest'', Set = None\<rparr>],
                Counts = [''Bruna'' \<mapsto> 1, ''Forest'' \<mapsto> 4]\<rparr>"

text \<open>A zone of one card with the count 1, and the deck it resolves to.\<close>

definition oneCard :: "string \<Rightarrow> CardNames" where
  "oneCard n = \<lparr>Names = [\<lparr>Name = n, Set = None\<rparr>], Counts = [n \<mapsto> 1]\<rparr>"

definition oneCardDeck :: "string \<Rightarrow> string \<Rightarrow> Deck" where
  "oneCardDeck name n =
     \<lparr>deckName = name, BackURL = ''back.jpg'', deckCardSize = CardSizeStandard,
      Cards = [PCardInfo n n ''normal.jpg'' 1 False None]\<rparr>"

section \<open>Evaluation lemmas\<close>

subsection \<open>The grammars on the lines of the examples\<close>

lemma SubexpNames_arena:
  "SubexpNames arenaRegexp = [[], ''Count'', ''Name'', ''Set'', [], ''NumberInSet'']"
  by code_simp

lemma SubexpNames_workstation:
  "SubexpNames workstationRegexp = [[], ''Sideboard'', ''Count'', ''Set'', ''Name'']"
  by code_simp

lemma SubexpNames_standard:
  "SubexpNames standardRegexp = [[], ''Sideboard'', ''Count'', ''Name'', [], ''Comment'']"
  by code_simp

text \<open>The group numbers written in the three grammars are the positions in
  \<open>SubexpNames\<close>.\<close>

lemma groups_numbered:
  "map fst (groups arenaRegexp) = [1, 2, 3, 4, 5] \<and>
   map fst (groups workstationRegexp) = [1, 2, 3, 4] \<and>
   map fst (groups standardRegexp) = [1, 2, 3, 4, 5]"
  by code_simp

text \<open>A line that only the standard grammar matches.\<close>

lemma parseDeckLine_standard:
  assumes "FindStringSubmatch arenaRegexp l = None"
    and "FindStringSubmatch workstationRegexp l = None"
    and "FindStringSubmatch standardRegexp l = Some [w, sb, cnt, nm, g, cm]"
    and "Atoi cnt = Some c"
  shows "parseDeckLine l st =
     (case (if sb \<noteq> [] \<and> \<not> sbLineFound st then sbSwitch st else Inr st) of
        Inl p \<Rightarrow> Inl p
      | Inr st1 \<Rightarrow> Inr (fileCard st1 (nameOfMatch nm) None c))"
  using assms
  by (simp add: parseDeckLine_def cardLineRegexps_def SubexpNames_standard setOfMatch_def
        cong: sum.case_cong)

text \<open>A line that the Arena grammar does not match and the Workstation grammar does.\<close>

lemma parseDeckLine_workstation:
  assumes "FindStringSubmatch arenaRegexp l = None"
    and "FindStringSubmatch workstationRegexp l = Some [w, sb, cnt, setc, nm]"
    and "Atoi cnt = Some c"
  shows "parseDeckLine l st =
     (case (if sb \<noteq> [] \<and> \<not> sbLineFound st then sbSwitch st else Inr st) of
        Inl p \<Rightarrow> Inl p
      | Inr st1 \<Rightarrow>
          Inr (fileCard st1 (nameOfMatch nm)
                 (if setc \<noteq> [] then (if setc = ''000'' then None else Some setc) else None) c))"
  using assms
  by (simp add: parseDeckLine_def cardLineRegexps_def SubexpNames_workstation setOfMatch_def
        cong: sum.case_cong)

lemma atoi_0: "Atoi ''0'' = Some 0" by code_simp
lemma atoi_1: "Atoi ''1'' = Some 1" by code_simp
lemma atoi_2: "Atoi ''2'' = Some 2" by code_simp
lemma atoi_4: "Atoi ''4'' = Some 4" by code_simp

lemma name_Forest: "nameOfMatch ''Forest'' = ''Forest''" by code_simp
lemma name_Island: "nameOfMatch ''Island'' = ''Island''" by code_simp
lemma name_Negate: "nameOfMatch ''Negate'' = ''Negate''" by code_simp
lemma name_Counterspell: "nameOfMatch ''Counterspell'' = ''Counterspell''" by code_simp

lemma forest4_a: "FindStringSubmatch arenaRegexp ''4 Forest'' = None"
  by code_simp
lemma forest4_w: "FindStringSubmatch workstationRegexp ''4 Forest'' = None"
  by code_simp
lemma forest4_s:
  "FindStringSubmatch standardRegexp ''4 Forest'' = Some [''4 Forest'', [], ''4'', ''Forest'', [], []]"
  by code_simp

lemma island4_a: "FindStringSubmatch arenaRegexp ''4 Island'' = None"
  by code_simp
lemma island4_w: "FindStringSubmatch workstationRegexp ''4 Island'' = None"
  by code_simp
lemma island4_s:
  "FindStringSubmatch standardRegexp ''4 Island'' = Some [''4 Island'', [], ''4'', ''Island'', [], []]"
  by code_simp

lemma negate2_a: "FindStringSubmatch arenaRegexp ''SB: 2 Negate'' = None"
  by code_simp
lemma negate2_w: "FindStringSubmatch workstationRegexp ''SB: 2 Negate'' = None"
  by code_simp
lemma negate2_s:
  "FindStringSubmatch standardRegexp ''SB: 2 Negate'' =
     Some [''SB: 2 Negate'', ''SB:'', ''2'', ''Negate'', [], []]"
  by code_simp

lemma counterspell_a: "FindStringSubmatch arenaRegexp ''SB: 2 [ABC] Counterspell'' = None"
  by code_simp
lemma counterspell_w:
  "FindStringSubmatch workstationRegexp ''SB: 2 [ABC] Counterspell'' =
     Some [''SB: 2 [ABC] Counterspell'', ''SB:'', ''2'', ''ABC'', ''Counterspell'']"
  by code_simp
lemma counterspell_s:
  "FindStringSubmatch standardRegexp ''SB: 2 [ABC] Counterspell'' =
     Some [''SB: 2 [ABC] Counterspell'', ''SB:'', ''2'', ''[ABC] Counterspell'', [], []]"
  by code_simp

subsection \<open>Rounds of the file loop on these lines\<close>

lemma line_empty:
  "parseFileLine [] st =
     (case main st of
        None \<Rightarrow> Inr st
      | Some m \<Rightarrow>
          if Names m \<noteq> []
          then Inr (st\<lparr>step := (if step st = Main then Sideboard else step st),
                      emptyLineCount := emptyLineCount st + 1\<rparr>)
          else Inr st)"
  by (simp add: parseFileLine_def cong: option.case_cong)

lemma line_forest4: "parseFileLine ''4 Forest'' st = Inr (fileCard st ''Forest'' None 4)"
  by (simp add: parseFileLine_def HasPrefix_def
        parseDeckLine_standard [OF forest4_a forest4_w forest4_s atoi_4] name_Forest)

lemma line_island4: "parseFileLine ''4 Island'' st = Inr (fileCard st ''Island'' None 4)"
  by (simp add: parseFileLine_def HasPrefix_def
        parseDeckLine_standard [OF island4_a island4_w island4_s atoi_4] name_Island)

lemma line_negate2:
  "parseFileLine ''SB: 2 Negate'' st =
     (case (if \<not> sbLineFound st then sbSwitch st else Inr st) of
        Inl p \<Rightarrow> Inl p
      | Inr st1 \<Rightarrow> Inr (fileCard st1 ''Negate'' None 2))"
  by (simp add: parseFileLine_def HasPrefix_def
        parseDeckLine_standard [OF negate2_a negate2_w negate2_s atoi_2] name_Negate
      cong: sum.case_cong)

lemma forest0_a: "FindStringSubmatch arenaRegexp ''0 Forest'' = None"
  by code_simp
lemma forest0_w: "FindStringSubmatch workstationRegexp ''0 Forest'' = None"
  by code_simp
lemma forest0_s:
  "FindStringSubmatch standardRegexp ''0 Forest'' = Some [''0 Forest'', [], ''0'', ''Forest'', [], []]"
  by code_simp

lemma line_forest0: "parseFileLine ''0 Forest'' st = Inr (fileCard st ''Forest'' None 0)"
  by (simp add: parseFileLine_def HasPrefix_def
        parseDeckLine_standard [OF forest0_a forest0_w forest0_s atoi_0] name_Forest)

lemma forest2_a: "FindStringSubmatch arenaRegexp ''2 Forest'' = None"
  by code_simp
lemma forest2_w: "FindStringSubmatch workstationRegexp ''2 Forest'' = None"
  by code_simp
lemma forest2_s:
  "FindStringSubmatch standardRegexp ''2 Forest'' = Some [''2 Forest'', [], ''2'', ''Forest'', [], []]"
  by code_simp

lemma line_forest2: "parseFileLine ''2 Forest'' st = Inr (fileCard st ''Forest'' None 2)"
  by (simp add: parseFileLine_def HasPrefix_def
        parseDeckLine_standard [OF forest2_a forest2_w forest2_s atoi_2] name_Forest)

lemma forest1:
  "FindStringSubmatch arenaRegexp ''1 Forest'' = None"
  "FindStringSubmatch workstationRegexp ''1 Forest'' = None"
  "FindStringSubmatch standardRegexp ''1 Forest'' = Some [''1 Forest'', [], ''1'', ''Forest'', [], []]"
  by code_simp+

lemma negate1:
  "FindStringSubmatch arenaRegexp ''1 Negate'' = None"
  "FindStringSubmatch workstationRegexp ''1 Negate'' = None"
  "FindStringSubmatch standardRegexp ''1 Negate'' = Some [''1 Negate'', [], ''1'', ''Negate'', [], []]"
  by code_simp+

lemma island1:
  "FindStringSubmatch arenaRegexp ''1 Island'' = None"
  "FindStringSubmatch workstationRegexp ''1 Island'' = None"
  "FindStringSubmatch standardRegexp ''1 Island'' = Some [''1 Island'', [], ''1'', ''Island'', [], []]"
  by code_simp+

lemma line_forest1: "parseFileLine ''1 Forest'' st = Inr (fileCard st ''Forest'' None 1)"
  by (simp add: parseFileLine_def HasPrefix_def
        parseDeckLine_standard [OF forest1 atoi_1] name_Forest)

lemma line_negate1: "parseFileLine ''1 Negate'' st = Inr (fileCard st ''Negate'' None 1)"
  by (simp add: parseFileLine_def HasPrefix_def
        parseDeckLine_standard [OF negate1 atoi_1] name_Negate)

lemma line_island1: "parseFileLine ''1 Island'' st = Inr (fileCard st ''Island'' None 1)"
  by (simp add: parseFileLine_def HasPrefix_def
        parseDeckLine_standard [OF island1 atoi_1] name_Island)

lemma line_Sideboard:
  "parseFileLine ''Sideboard'' st = Inr (if step st = Main then st\<lparr>step := Sideboard\<rparr> else st)"
  by (simp add: parseFileLine_def HasPrefix_def)

lemma line_Maybeboard: "parseFileLine ''Maybeboard'' st = Inr (st\<lparr>step := Maybeboard\<rparr>)"
  by (simp add: parseFileLine_def HasPrefix_def)

lemma forestMax:
  "FindStringSubmatch arenaRegexp ''9223372036854775807 Forest'' = None"
  "FindStringSubmatch workstationRegexp ''9223372036854775807 Forest'' = None"
  "FindStringSubmatch standardRegexp ''9223372036854775807 Forest'' =
     Some [''9223372036854775807 Forest'', [], ''9223372036854775807'', ''Forest'', [], []]"
  by code_simp+

lemma atoi_max: "Atoi ''9223372036854775807'' = Some 9223372036854775807"
  by code_simp

lemma line_forestMax:
  "parseFileLine ''9223372036854775807 Forest'' st =
     Inr (fileCard st ''Forest'' None 9223372036854775807)"
  by (simp add: parseFileLine_def HasPrefix_def
        parseDeckLine_standard [OF forestMax atoi_max] name_Forest)

subsection \<open>Merging count maps\<close>

lemma mergeCounts_empty: "mergeCounts mc Map.empty = mc"
  by (rule ext) (simp add: mergeCounts_def)

lemma mergeCounts_upd:
  "mergeCounts mc (sc(k \<mapsto> v)) =
     (mergeCounts mc sc)(k \<mapsto> (case mc k of Some oc \<Rightarrow> wrap64 (oc + v) | None \<Rightarrow> v))"
  by (rule ext) (simp add: mergeCounts_def split: option.splits)

lemmas eval_parse = parseDeckFile_def line_empty fileCard_def sbSwitch_def mergeSideboard_def
  endOfInput_def orNew_def NewCardNames_def InsertCount_def mergeCounts_empty mergeCounts_upd
  initState_def

section \<open>The parser on the examples of the specification\<close>

lemma scan_retraction:
  "scanLines ''4 Forest\<newline>\<newline>4 Island\<newline>\<newline>SB: 2 Negate'' =
     ([''4 Forest'', [], ''4 Island'', [], ''SB: 2 Negate''], None)"
  by code_simp

text \<open>
  Claim C1. For the text \<^verbatim>\<open>4 Forest\n\n4 Island\n\nSB: 2 Negate\<close> the parser returns
  main = Forest 4, Island 4 (in this order), sideboard = Negate 2 and no maybeboard. After the
  first four lines the first blank line has opened a sideboard that holds Island; the line
  with the \<^verbatim>\<open>SB:\<close> prefix merges it into main before Negate goes to the new sideboard.
\<close>

theorem boundary_retraction:
  "parseLines [''4 Forest'', [], ''4 Island'', []] initState =
     Inr \<lparr>main = Some \<lparr>Names = [\<lparr>Name = ''Forest'', Set = None\<rparr>],
                        Counts = [''Forest'' \<mapsto> 4]\<rparr>,
          side = Some \<lparr>Names = [\<lparr>Name = ''Island'', Set = None\<rparr>],
                        Counts = [''Island'' \<mapsto> 4]\<rparr>,
          maybe = None, step = Sideboard, sbLineFound = False, emptyLineCount = 2\<rparr> \<and>
   parseDeckFile ''4 Forest\<newline>\<newline>4 Island\<newline>\<newline>SB: 2 Negate'' =
     Inr (Some \<lparr>Names = [\<lparr>Name = ''Forest'', Set = None\<rparr>, \<lparr>Name = ''Island'', Set = None\<rparr>],
                Counts = [''Forest'' \<mapsto> 4, ''Island'' \<mapsto> 4]\<rparr>,
          Some \<lparr>Names = [\<lparr>Name = ''Negate'', Set = None\<rparr>], Counts = [''Negate'' \<mapsto> 2]\<rparr>,
          None, None)"
  by (simp add: eval_parse scan_retraction line_forest4 line_island4 line_negate2)

lemma scan_multi_blank:
  "scanLines ''4 Forest\<newline>\<newline>4 Island\<newline>\<newline>\<newline>'' =
     ([''4 Forest'', [], ''4 Island'', [], []], None)"
  by code_simp

text \<open>
  Claim C4. For the text \<^verbatim>\<open>4 Forest\n\n4 Island\n\n\n\<close>, which has no \<^verbatim>\<open>SB:\<close> line and
  three blank lines after the first card of main, the parser returns the single zone
  main = Forest 4, Island 4 and no sideboard. When the lines are read the sideboard opened
  by the first blank line holds Island; at the end of the input it is merged into main and
  dropped.
\<close>

theorem multi_blank_false_boundary:
  "parseLines (fst (scanLines ''4 Forest\<newline>\<newline>4 Island\<newline>\<newline>\<newline>'')) initState =
     Inr \<lparr>main = Some \<lparr>Names = [\<lparr>Name = ''Forest'', Set = None\<rparr>],
                        Counts = [''Forest'' \<mapsto> 4]\<rparr>,
          side = Some \<lparr>Names = [\<lparr>Name = ''Island'', Set = None\<rparr>],
                        Counts = [''Island'' \<mapsto> 4]\<rparr>,
          maybe = None, step = Sideboard, sbLineFound = False, emptyLineCount = 3\<rparr> \<and>
   parseDeckFile ''4 Forest\<newline>\<newline>4 Island\<newline>\<newline>\<newline>'' =
     Inr (Some \<lparr>Names = [\<lparr>Name = ''Forest'', Set = None\<rparr>, \<lparr>Name = ''Island'', Set = None\<rparr>],
                Counts = [''Forest'' \<mapsto> 4, ''Island'' \<mapsto> 4]\<rparr>,
          None, None, None)"
  by (simp add: eval_parse scan_multi_blank line_forest4 line_island4)

text \<open>
  Claim C7. The line \<^verbatim>\<open>SB: 2 [ABC] Counterspell\<close> is decided by the Workstation grammar, the
  second of \<open>cardLineRegexps\<close>: the Arena grammar does not match it, the Workstation grammar
  gives the prefix \<^verbatim>\<open>SB:\<close>, the count 2, the set ABC and the name Counterspell, and
  \<open>parseDeckLine\<close> files Counterspell with set ABC in the sideboard. The standard grammar,
  third in the list, would have kept \<^verbatim>\<open>[ABC] Counterspell\<close> as the name.
\<close>

theorem grammar_priority:
  "cardLineRegexps = [arenaRegexp, workstationRegexp, standardRegexp] \<and>
   FindStringSubmatch arenaRegexp ''SB: 2 [ABC] Counterspell'' = None \<and>
   FindStringSubmatch workstationRegexp ''SB: 2 [ABC] Counterspell'' =
     Some [''SB: 2 [ABC] Counterspell'', ''SB:'', ''2'', ''ABC'', ''Counterspell''] \<and>
   FindStringSubmatch standardRegexp ''SB: 2 [ABC] Counterspell'' =
     Some [''SB: 2 [ABC] Counterspell'', ''SB:'', ''2'', ''[ABC] Counterspell'', [], []] \<and>
   parseDeckLine ''SB: 2 [ABC] Counterspell'' initState =
     Inr (initState\<lparr>side := Some \<lparr>Names = [\<lparr>Name = ''Counterspell'', Set = Some ''ABC''\<rparr>],
                                      Counts = [''Counterspell'' \<mapsto> 2]\<rparr>,
                      step := Sideboard, sbLineFound := True\<rparr>)"
  by (simp add: parseDeckLine_workstation [OF counterspell_a counterspell_w atoi_2]
        counterspell_a counterspell_w counterspell_s name_Counterspell cardLineRegexps_def
        initState_def sbSwitch_def fileCard_def orNew_def NewCardNames_def InsertCount_def)

section \<open>Counts of the zones\<close>

subsection \<open>Insertion and merge keep the counts positive\<close>

lemma wrap64_id: "- (2 ^ 63) \<le> x \<Longrightarrow> x < 2 ^ 63 \<Longrightarrow> wrap64 x = x"
  by (simp add: wrap64_def)

lemma zoneCount_nonneg: "goodZone z \<Longrightarrow> 0 \<le> zoneCount z n"
  by (auto simp: goodZone_def zoneCount_def split: option.splits dest!: spec [of _ n])

lemma goodZone_orNew: "goodZone z \<Longrightarrow> goodZone (Some (orNew z))"
  by (auto simp: goodZone_def orNew_def NewCardNames_def split: option.splits)

lemma zoneCount_orNew: "zoneCount (Some (orNew z)) n = zoneCount z n"
  by (auto simp: zoneCount_def orNew_def NewCardNames_def split: option.splits)

lemma goodZone_InsertCount:
  assumes "goodZone (Some c)" and "1 \<le> k" and "zoneCount (Some c) n + k < 2 ^ 63"
  shows "goodZone (Some (InsertCount c n s k))"
proof (cases "Counts c n")
  case None
  with assms show ?thesis
    by (auto simp: goodZone_def InsertCount_def)
next
  case (Some old)
  with assms have old: "1 \<le> old" and "old + k < 2 ^ 63"
    by (auto simp: goodZone_def zoneCount_def)
  with \<open>1 \<le> k\<close> have "wrap64 (old + k) = old + k"
    by (intro wrap64_id) auto
  moreover from old \<open>1 \<le> k\<close> have "1 \<le> old + k" by simp
  ultimately show ?thesis
    using Some assms(1) by (auto simp: goodZone_def InsertCount_def)
qed

lemma zoneCount_InsertCount:
  assumes "goodZone (Some c)" and "1 \<le> k" and "zoneCount (Some c) n + k < 2 ^ 63"
  shows "zoneCount (Some (InsertCount c n s k)) n' = zoneCount (Some c) n' + (if n' = n then k else 0)"
proof (cases "Counts c n")
  case None
  then show ?thesis
    by (auto simp: zoneCount_def InsertCount_def)
next
  case (Some old)
  with assms have "1 \<le> old" and "old + k < 2 ^ 63"
    by (auto simp: goodZone_def zoneCount_def)
  with \<open>1 \<le> k\<close> have "wrap64 (old + k) = old + k"
    by (intro wrap64_id) auto
  with Some show ?thesis
    by (auto simp: zoneCount_def InsertCount_def)
qed


lemma countInv_fileCard:
  assumes "countInv T st" and "1 \<le> k" and "T + k < 2 ^ 63"
  shows "countInv (T + k) (fileCard st n s k)"
proof -
  from assms(1) have g: "goodZone (main st)" "goodZone (side st)" "goodZone (maybe st)"
    and le: "\<And>x. zoneCount (main st) x + zoneCount (side st) x + zoneCount (maybe st) x \<le> T"
    by (auto simp: countInv_def)
  have nn: "0 \<le> zoneCount (main st) n" "0 \<le> zoneCount (side st) n" "0 \<le> zoneCount (maybe st) n"
    using g by (auto intro: zoneCount_nonneg)
  have ins: "goodZone (Some (InsertCount (orNew z) n s k)) \<and>
             (\<forall>x. zoneCount (Some (InsertCount (orNew z) n s k)) x
                    = zoneCount z x + (if x = n then k else 0))"
    if "goodZone z" and "zoneCount z n \<le> T" for z
  proof -
    have b: "zoneCount (Some (orNew z)) n + k < 2 ^ 63"
      using that(2) assms(3) by (simp add: zoneCount_orNew)
    show ?thesis
      using goodZone_InsertCount [OF goodZone_orNew [OF that(1)] assms(2) b]
        zoneCount_InsertCount [OF goodZone_orNew [OF that(1)] assms(2) b]
      by (simp add: zoneCount_orNew)
  qed
  show ?thesis
  proof (cases "step st")
    case Main
    have "zoneCount (main st) n \<le> T" using le [of n] nn by linarith
    from ins [OF g(1) this] have
      gz: "goodZone (Some (InsertCount (orNew (main st)) n s k))"
      and z: "\<And>x. zoneCount (Some (InsertCount (orNew (main st)) n s k)) x
                = zoneCount (main st) x + (if x = n then k else 0)"
      by auto
    have "zoneCount (Some (InsertCount (orNew (main st)) n s k)) x
            + zoneCount (side st) x + zoneCount (maybe st) x \<le> T + k" for x
      using le [of x] assms(2) by (cases "x = n") (auto simp: z)
    then show ?thesis
      using Main g gz by (simp add: countInv_def fileCard_def)
  next
    case Sideboard
    have "zoneCount (side st) n \<le> T" using le [of n] nn by linarith
    from ins [OF g(2) this] have
      gz: "goodZone (Some (InsertCount (orNew (side st)) n s k))"
      and z: "\<And>x. zoneCount (Some (InsertCount (orNew (side st)) n s k)) x
                = zoneCount (side st) x + (if x = n then k else 0)"
      by auto
    have "zoneCount (main st) x + zoneCount (Some (InsertCount (orNew (side st)) n s k)) x
            + zoneCount (maybe st) x \<le> T + k" for x
      using le [of x] assms(2) by (cases "x = n") (auto simp: z)
    then show ?thesis
      using Sideboard g gz by (simp add: countInv_def fileCard_def)
  next
    case Maybeboard
    have "zoneCount (maybe st) n \<le> T" using le [of n] nn by linarith
    from ins [OF g(3) this] have
      gz: "goodZone (Some (InsertCount (orNew (maybe st)) n s k))"
      and z: "\<And>x. zoneCount (Some (InsertCount (orNew (maybe st)) n s k)) x
                = zoneCount (maybe st) x + (if x = n then k else 0)"
      by auto
    have "zoneCount (main st) x + zoneCount (side st) x
            + zoneCount (Some (InsertCount (orNew (maybe st)) n s k)) x \<le> T + k" for x
      using le [of x] assms(2) by (cases "x = n") (auto simp: z)
    then show ?thesis
      using Maybeboard g gz by (simp add: countInv_def fileCard_def)
  qed
qed

lemma merge_good:
  assumes "goodZone (Some m)" and "goodZone (Some sd)"
    and "\<And>x. zoneCount (Some m) x + zoneCount (Some sd) x < 2 ^ 63"
  shows "goodZone (Some (m\<lparr>Names := Names m @ Names sd, Counts := mergeCounts (Counts m) (Counts sd)\<rparr>))"
    and "zoneCount (Some (m\<lparr>Names := Names m @ Names sd, Counts := mergeCounts (Counts m) (Counts sd)\<rparr>)) x
           = zoneCount (Some m) x + zoneCount (Some sd) x"
proof -
  have w: "wrap64 (a + b) = a + b" if "Counts m y = Some a" "Counts sd y = Some b" for y a b
  proof -
    from that assms(1,2) have "1 \<le> a" "1 \<le> b" by (auto simp: goodZone_def)
    moreover from that assms(3) [of y] have "a + b < 2 ^ 63" by (simp add: zoneCount_def)
    ultimately show ?thesis by (intro wrap64_id) auto
  qed
  have c: "mergeCounts (Counts m) (Counts sd) y =
      (case Counts sd y of None \<Rightarrow> Counts m y
       | Some b \<Rightarrow> (case Counts m y of None \<Rightarrow> Some b | Some a \<Rightarrow> Some (a + b)))" for y
    by (auto simp: mergeCounts_def w split: option.splits)
  show "goodZone (Some (m\<lparr>Names := Names m @ Names sd, Counts := mergeCounts (Counts m) (Counts sd)\<rparr>))"
    using assms(1,2) by (auto simp: goodZone_def c split: option.splits) (force+)?
  show "zoneCount (Some (m\<lparr>Names := Names m @ Names sd, Counts := mergeCounts (Counts m) (Counts sd)\<rparr>)) x
           = zoneCount (Some m) x + zoneCount (Some sd) x"
    by (auto simp: zoneCount_def c split: option.splits)
qed


lemma countInv_merge:
  assumes "countInv T st" and "T < 2 ^ 63" and "side st = Some sd"
    and "mergeSideboard (main st) sd = Inr m'"
    and "main st' = Some m'" and "side st' = None" and "maybe st' = maybe st"
  shows "countInv T st'"
proof -
  from assms(4) obtain m where m: "main st = Some m"
    and m': "m' = m\<lparr>Names := Names m @ Names sd, Counts := mergeCounts (Counts m) (Counts sd)\<rparr>"
    by (auto simp: mergeSideboard_def split: option.splits)
  from assms(1,3) m have g: "goodZone (Some m)" "goodZone (Some sd)" "goodZone (maybe st)"
    and le: "\<And>x. zoneCount (Some m) x + zoneCount (Some sd) x + zoneCount (maybe st) x \<le> T"
    by (auto simp: countInv_def)
  have b: "zoneCount (Some m) x + zoneCount (Some sd) x < 2 ^ 63" for x
    using le [of x] zoneCount_nonneg [OF g(3), of x] assms(2) by linarith
  have "goodZone (Some m')" and "\<And>x. zoneCount (Some m') x = zoneCount (Some m) x + zoneCount (Some sd) x"
    unfolding m' using merge_good [OF g(1,2) b] by auto
  then show ?thesis
    using g(3) le assms(5,6,7) by (simp add: countInv_def goodZone_def zoneCount_def)
qed

lemma countInv_sbSwitch:
  assumes "countInv T st" and "T < 2 ^ 63" and "sbSwitch st = Inr st'"
  shows "countInv T st'"
proof (cases "side st")
  case None
  with assms(3) have "st' = st\<lparr>step := Sideboard, sbLineFound := True\<rparr>"
    by (simp add: sbSwitch_def)
  with assms(1) show ?thesis by (simp add: countInv_def)
next
  case (Some sd)
  show ?thesis
  proof (cases "length (Names sd) > 0")
    case False
    with Some assms(3) have "st' = st\<lparr>step := Sideboard, sbLineFound := True\<rparr>"
      by (simp add: sbSwitch_def)
    with assms(1) show ?thesis by (simp add: countInv_def)
  next
    case True
    with Some assms(3) obtain m' where "mergeSideboard (main st) sd = Inr m'"
      and "st' = st\<lparr>main := Some m', side := None, step := Sideboard, sbLineFound := True\<rparr>"
      by (auto simp: sbSwitch_def split: sum.splits)
    then show ?thesis
      using countInv_merge [OF assms(1,2) Some, of m' st'] by simp
  qed
qed

lemma countInv_endOfInput:
  assumes "countInv T st" and "T < 2 ^ 63" and "endOfInput st = Inr st'"
  shows "countInv T st'"
proof (cases "side st")
  case None
  with assms show ?thesis by (simp add: endOfInput_def)
next
  case (Some sd)
  show ?thesis
  proof (cases "\<not> sbLineFound st \<and> emptyLineCount st > 1")
    case False
    with Some assms show ?thesis by (auto simp: endOfInput_def)
  next
    case True
    with Some assms(3) obtain m' where "mergeSideboard (main st) sd = Inr m'"
      and "st' = st\<lparr>main := Some m', side := None\<rparr>"
      by (auto simp: endOfInput_def split: sum.splits)
    then show ?thesis
      using countInv_merge [OF assms(1,2) Some, of m' st'] by simp
  qed
qed

subsection \<open>The invariant through the line and file loops\<close>

lemma loop_nomatch:
  "FindStringSubmatch regex l = None \<Longrightarrow>
   parseDeckLineLoop (regex # rs) l st = parseDeckLineLoop rs l st"
  by simp

lemma loop_noindex:
  "FindStringSubmatch regex l = Some ms \<Longrightarrow>
   IndexOf ''Count'' (SubexpNames regex) = - 1 \<or> IndexOf ''Name'' (SubexpNames regex) = - 1 \<Longrightarrow>
   parseDeckLineLoop (regex # rs) l st = parseDeckLineLoop rs l st"
  by auto

lemma loop_match:
  "FindStringSubmatch regex l = Some ms \<Longrightarrow>
   IndexOf ''Count'' (SubexpNames regex) \<noteq> - 1 \<Longrightarrow>
   IndexOf ''Name'' (SubexpNames regex) \<noteq> - 1 \<Longrightarrow>
   parseDeckLineLoop (regex # rs) l st =
     (case (if IndexOf ''Sideboard'' (SubexpNames regex) \<noteq> - 1
               \<and> length (ms ! nat (IndexOf ''Sideboard'' (SubexpNames regex))) > 0
               \<and> \<not> sbLineFound st
            then sbSwitch st else Inr st) of
        Inl p \<Rightarrow> Inl p
      | Inr st1 \<Rightarrow>
          (case Atoi (ms ! nat (IndexOf ''Count'' (SubexpNames regex))) of
             None \<Rightarrow> parseDeckLineLoop rs l st1
           | Some count \<Rightarrow>
               Inr (fileCard st1
                      (nameOfMatch (ms ! nat (IndexOf ''Name'' (SubexpNames regex))))
                      (setOfMatch (SubexpNames regex) ms)
                      count)))"
  by simp

lemma countInv_lineLoop:
  assumes "countInv T st" and "T < 2 ^ 63" and "parseDeckLineLoop rs l st = Inr st'"
  shows "case lineCountLoop rs l of
           None \<Rightarrow> countInv T st'
         | Some c \<Rightarrow> 1 \<le> c \<longrightarrow> T + c < 2 ^ 63 \<longrightarrow> countInv (T + c) st'"
  using assms
proof (induction rs arbitrary: st)
  case Nil
  then show ?case by simp
next
  case (Cons regex rs)
  note step = parseDeckLineLoop.simps(2) [simp del] lineCountLoop.simps(2) [simp del]
  show ?case
  proof (cases "FindStringSubmatch regex l")
    case None
    then have "lineCountLoop (regex # rs) l = lineCountLoop rs l"
      by (simp add: lineCountLoop.simps(2))
    with Cons.IH [OF Cons.prems(1,2)] Cons.prems(3) loop_nomatch [OF None, of rs st]
    show ?thesis by simp
  next
    case (Some ms)
    show ?thesis
    proof (cases "IndexOf ''Count'' (SubexpNames regex) = - 1 \<or> IndexOf ''Name'' (SubexpNames regex) = - 1")
      case True
      with Some have "lineCountLoop (regex # rs) l = lineCountLoop rs l"
        by (simp add: lineCountLoop.simps(2))
      with Cons.IH [OF Cons.prems(1,2)] Cons.prems(3) loop_noindex [OF Some True, of rs st]
      show ?thesis by simp
    next
      case False
      then have i: "IndexOf ''Count'' (SubexpNames regex) \<noteq> - 1"
        "IndexOf ''Name'' (SubexpNames regex) \<noteq> - 1" by auto
      define sw where "sw = (if IndexOf ''Sideboard'' (SubexpNames regex) \<noteq> - 1
               \<and> length (ms ! nat (IndexOf ''Sideboard'' (SubexpNames regex))) > 0
               \<and> \<not> sbLineFound st
            then sbSwitch st else Inr st)"
      define a where "a = Atoi (ms ! nat (IndexOf ''Count'' (SubexpNames regex)))"
      define card where "card = (\<lambda>st1 count. fileCard st1
                      (nameOfMatch (ms ! nat (IndexOf ''Name'' (SubexpNames regex))))
                      (setOfMatch (SubexpNames regex) ms) count)"
      have eq: "parseDeckLineLoop (regex # rs) l st =
          (case sw of Inl p \<Rightarrow> Inl p
           | Inr st1 \<Rightarrow> (case a of None \<Rightarrow> parseDeckLineLoop rs l st1
                          | Some count \<Rightarrow> Inr (card st1 count)))"
        unfolding sw_def a_def card_def by (rule loop_match [OF Some i])
      have lc: "lineCountLoop (regex # rs) l = (case a of None \<Rightarrow> lineCountLoop rs l | Some c \<Rightarrow> Some c)"
        using Some False by (simp add: lineCountLoop.simps(2) a_def)
      from Cons.prems(3) eq obtain st1 where st1: "sw = Inr st1"
        and rest: "(case a of None \<Rightarrow> parseDeckLineLoop rs l st1
                          | Some count \<Rightarrow> Inr (card st1 count)) = Inr st'"
        by (cases sw) auto
      have inv1: "countInv T st1"
      proof (cases "sw = sbSwitch st")
        case True
        with st1 show ?thesis using countInv_sbSwitch [OF Cons.prems(1,2)] by simp
      next
        case False
        with st1 have "st1 = st" by (auto simp: sw_def split: if_splits)
        with Cons.prems(1) show ?thesis by simp
      qed
      show ?thesis
      proof (cases a)
        case None
        with rest lc Cons.IH [OF inv1 Cons.prems(2)] show ?thesis by simp
      next
        case (Some c)
        with rest have "st' = card st1 c" by simp
        with Some lc inv1 show ?thesis
          by (auto simp: card_def intro: countInv_fileCard)
      qed
    qed
  qed
qed

lemma cardLine_step:
  "isCardLine l \<Longrightarrow> parseFileLine l st = parseDeckLineLoop cardLineRegexps l st"
  by (simp add: isCardLine_def parseFileLine_def parseDeckLine_def)

lemma otherLine_zones:
  assumes "\<not> isCardLine l" and "parseFileLine l st = Inr st'"
  shows "main st' = main st \<and> side st' = side st \<and> maybe st' = maybe st"
proof -
  from assms(1) consider "l = []"
    | "l \<noteq> []" "HasPrefix l ''Sideboard''"
    | "l \<noteq> []" "\<not> HasPrefix l ''Sideboard''" "HasPrefix l ''Maybeboard''"
    | "l \<noteq> []" "\<not> HasPrefix l ''Sideboard''" "\<not> HasPrefix l ''Maybeboard''" "HasPrefix l ''//''"
    unfolding isCardLine_def by blast
  then show ?thesis
  proof cases
    case 1
    with assms(2) show ?thesis
      by (cases "main st") (auto simp: parseFileLine_def split: if_splits)
  next
    case 2
    with assms(2) show ?thesis
      by (auto simp: parseFileLine_def split: if_splits)
  next
    case 3
    with assms(2) show ?thesis
      by (auto simp: parseFileLine_def)
  next
    case 4
    with assms(2) show ?thesis
      by (auto simp: parseFileLine_def)
  qed
qed


lemma countInv_parseFileLine:
  assumes "countInv T st" and "T < 2 ^ 63" and "parseFileLine l st = Inr st'"
  shows "case lineCount l of
           None \<Rightarrow> countInv T st'
         | Some c \<Rightarrow> 1 \<le> c \<longrightarrow> T + c < 2 ^ 63 \<longrightarrow> countInv (T + c) st'"
proof (cases "isCardLine l")
  case True
  with assms(3) have "parseDeckLineLoop cardLineRegexps l st = Inr st'"
    by (simp add: cardLine_step)
  from countInv_lineLoop [OF assms(1,2) this] True show ?thesis
    by (simp add: lineCount_def)
next
  case False
  from otherLine_zones [OF False assms(3)] assms(1) have "countInv T st'"
    by (simp add: countInv_def)
  with False show ?thesis
    by (simp add: lineCount_def)
qed

lemma countsOfLines_Cons:
  "countsOfLines (l # ls) = (case lineCount l of None \<Rightarrow> [] | Some c \<Rightarrow> [c]) @ countsOfLines ls"
  by (simp add: countsOfLines_def)

lemma sum_list_pos: "list_all (\<lambda>c. 1 \<le> c) (cs :: int list) \<Longrightarrow> 0 \<le> sum_list cs"
  by (induction cs) auto

lemma countInv_parseLines:
  assumes "countInv T st" and "list_all (\<lambda>c. 1 \<le> c) (countsOfLines ls)"
    and "T + sum_list (countsOfLines ls) < 2 ^ 63" and "parseLines ls st = Inr st'"
  shows "countInv (T + sum_list (countsOfLines ls)) st'"
  using assms
proof (induction ls arbitrary: T st)
  case Nil
  then show ?case by (simp add: countsOfLines_def)
next
  case (Cons l ls)
  from Cons.prems(4) obtain st1 where l: "parseFileLine l st = Inr st1"
    and ls: "parseLines ls st1 = Inr st'"
    by (auto split: sum.splits)
  from Cons.prems(2) have pos: "list_all (\<lambda>c. 1 \<le> c) (countsOfLines ls)"
    by (simp add: countsOfLines_Cons)
  then have nn: "0 \<le> sum_list (countsOfLines ls)" by (rule sum_list_pos)
  show ?case
  proof (cases "lineCount l")
    case None
    with Cons.prems(3) nn have "T < 2 ^ 63" by (simp add: countsOfLines_Cons)
    with countInv_parseFileLine [OF Cons.prems(1) _ l] None have "countInv T st1" by simp
    from Cons.IH [OF this pos _ ls] Cons.prems(3) None show ?thesis
      by (simp add: countsOfLines_Cons)
  next
    case (Some c)
    with Cons.prems(2) have c: "1 \<le> c" by (simp add: countsOfLines_Cons)
    from Cons.prems(3) Some have b: "T + c + sum_list (countsOfLines ls) < 2 ^ 63"
      by (simp add: countsOfLines_Cons add.assoc)
    with nn c have "T < 2 ^ 63" "T + c < 2 ^ 63" by linarith+
    with countInv_parseFileLine [OF Cons.prems(1) _ l] Some c have "countInv (T + c) st1" by simp
    from Cons.IH [OF this pos b ls] Some show ?thesis
      by (simp add: countsOfLines_Cons add.assoc)
  qed
qed

lemma goodZone_positive: "goodZone z \<Longrightarrow> positiveZone z"
  by (auto simp: goodZone_def positiveZone_def list_all_iff split: option.splits)

lemma scan_forest0: "scanLines ''0 Forest'' = ([''0 Forest''], None)"
  by code_simp

lemma scan_overflow:
  "scanLines ''9223372036854775807 Forest\<newline>1 Forest'' =
     ([''9223372036854775807 Forest'', ''1 Forest''], None)"
  by code_simp

text \<open>
  Claim C6, as stated, fails: a line with the count 0 is a card line of the standard grammar,
  and the text \<^verbatim>\<open>0 Forest\<close> gives a main zone in which Forest has the count 0. The sum
  of two counts wraps around as well: the largest \<^verbatim>\<open>int\<close> and 1 for the same name give a
  negative count.
\<close>

theorem zero_count_counterexample:
  "parseDeckFile ''0 Forest'' =
     Inr (Some \<lparr>Names = [\<lparr>Name = ''Forest'', Set = None\<rparr>], Counts = [''Forest'' \<mapsto> 0]\<rparr>,
          None, None, None) \<and>
   \<not> positiveZone (Some \<lparr>Names = [\<lparr>Name = ''Forest'', Set = None\<rparr>], Counts = [''Forest'' \<mapsto> 0]\<rparr>) \<and>
   parseDeckFile ''9223372036854775807 Forest\<newline>1 Forest'' =
     Inr (Some \<lparr>Names = [\<lparr>Name = ''Forest'', Set = None\<rparr>],
                Counts = [''Forest'' \<mapsto> - 9223372036854775808]\<rparr>,
          None, None, None)"
  by (simp add: eval_parse scan_forest0 scan_overflow line_forest0 line_forestMax line_forest1
        positiveZone_def wrap64_def)

text \<open>
  Claim C6, amended. When every card line of the input carries a count of at least 1 and the
  counts of all card lines add up to less than \<open>2 ^ 63\<close>, every name in the sequence of
  every zone that the parser returns has a count, and it is at least 1.
\<close>

theorem counts_positive:
  assumes "list_all (\<lambda>c. 1 \<le> c) (countsOfLines (fst (scanLines file)))"
    and "sum_list (countsOfLines (fst (scanLines file))) < 2 ^ 63"
    and "parseDeckFile file = Inr (m, s, mb, e)"
  shows "positiveZone m \<and> positiveZone s \<and> positiveZone mb"
proof -
  from assms(3) obtain st st' where p: "parseLines (fst (scanLines file)) initState = Inr st"
    and e: "endOfInput st = Inr st'" and z: "m = main st'" "s = side st'" "mb = maybe st'"
    by (auto simp: parseDeckFile_def split: sum.splits)
  have "countInv 0 initState"
    by (simp add: countInv_def initState_def goodZone_def zoneCount_def)
  from countInv_parseLines [OF this assms(1) _ p] assms(2)
  have "countInv (sum_list (countsOfLines (fst (scanLines file)))) st" by simp
  from countInv_endOfInput [OF this assms(2) e] z show ?thesis
    by (simp add: countInv_def goodZone_positive)
qed


lemma scan_two_forests:
  "scanLines ''4 Forest\<newline>4 Forest\<newline>SB: 2 Negate'' =
     ([''4 Forest'', ''4 Forest'', ''SB: 2 Negate''], None)"
  by code_simp

lemma counts_two_forests:
  "countsOfLines [''4 Forest'', ''4 Forest'', ''SB: 2 Negate''] = [4, 4, 2]"
  by code_simp

theorem counts_positive_witness:
  "list_all (\<lambda>c. 1 \<le> c) (countsOfLines (fst (scanLines ''4 Forest\<newline>4 Forest\<newline>SB: 2 Negate''))) \<and>
   sum_list (countsOfLines (fst (scanLines ''4 Forest\<newline>4 Forest\<newline>SB: 2 Negate''))) < 2 ^ 63 \<and>
   parseDeckFile ''4 Forest\<newline>4 Forest\<newline>SB: 2 Negate'' =
     Inr (Some \<lparr>Names = [\<lparr>Name = ''Forest'', Set = None\<rparr>], Counts = [''Forest'' \<mapsto> 8]\<rparr>,
          Some \<lparr>Names = [\<lparr>Name = ''Negate'', Set = None\<rparr>], Counts = [''Negate'' \<mapsto> 2]\<rparr>,
          None, None) \<and>
   positiveZone (Some \<lparr>Names = [\<lparr>Name = ''Forest'', Set = None\<rparr>], Counts = [''Forest'' \<mapsto> 8]\<rparr>) \<and>
   positiveZone (Some \<lparr>Names = [\<lparr>Name = ''Negate'', Set = None\<rparr>], Counts = [''Negate'' \<mapsto> 2]\<rparr>) \<and>
   positiveZone None"
proof -
  have h1: "list_all (\<lambda>c. 1 \<le> c)
              (countsOfLines (fst (scanLines ''4 Forest\<newline>4 Forest\<newline>SB: 2 Negate'')))"
    by (simp add: scan_two_forests counts_two_forests)
  have h2: "sum_list (countsOfLines (fst (scanLines ''4 Forest\<newline>4 Forest\<newline>SB: 2 Negate'')))
              < 2 ^ 63"
    by (simp add: scan_two_forests counts_two_forests)
  have h3: "parseDeckFile ''4 Forest\<newline>4 Forest\<newline>SB: 2 Negate'' =
     Inr (Some \<lparr>Names = [\<lparr>Name = ''Forest'', Set = None\<rparr>], Counts = [''Forest'' \<mapsto> 8]\<rparr>,
          Some \<lparr>Names = [\<lparr>Name = ''Negate'', Set = None\<rparr>], Counts = [''Negate'' \<mapsto> 2]\<rparr>,
          None, None)"
    by (simp add: eval_parse scan_two_forests line_forest4 line_negate2 wrap64_def)
  from counts_positive [OF h1 h2 h3] h1 h2 h3 show ?thesis by simp
qed

section \<open>Distinct names\<close>

lemma scan_dup_sb:
  "scanLines ''4 Forest\<newline>\<newline>2 Forest\<newline>\<newline>SB: 2 Negate'' =
     ([''4 Forest'', [], ''2 Forest'', [], ''SB: 2 Negate''], None)"
  by code_simp

lemma scan_dup_end:
  "scanLines ''4 Forest\<newline>\<newline>2 Forest\<newline>\<newline>'' = ([''4 Forest'', [], ''2 Forest'', []], None)"
  by code_simp

text \<open>The invariant of a zone: the names of the sequence are distinct and are the keys of
  the count map. \<open>InsertCount\<close> keeps it; the two merges do not, as the evaluation below
  shows.\<close>

lemma InsertCount_distinct:
  assumes "distinct (map Name (Names c))" and "set (map Name (Names c)) = dom (Counts c)"
  shows "distinct (map Name (Names (InsertCount c n s k))) \<and>
         set (map Name (Names (InsertCount c n s k))) = dom (Counts (InsertCount c n s k))"
proof (cases "Counts c n")
  case None
  then have "n \<notin> set (map Name (Names c))" using assms(2) by auto
  with None assms show ?thesis by (auto simp: InsertCount_def)
next
  case (Some old)
  then have "n \<in> dom (Counts c)" by auto
  with Some assms show ?thesis by (auto simp: InsertCount_def)
qed

text \<open>
  Claim C2 does not hold of the code. Both merges append every name of the provisional
  sideboard to main's sequence, also a name that main already has: with Forest in main and
  in the provisional sideboard, the merge sums the counts to 6 and leaves Forest twice in the
  sequence, at the first \<^verbatim>\<open>SB:\<close> line as well as at the end of the input.
\<close>

theorem merge_duplicates_names:
  "parseDeckFile ''4 Forest\<newline>\<newline>2 Forest\<newline>\<newline>SB: 2 Negate'' =
     Inr (Some \<lparr>Names = [\<lparr>Name = ''Forest'', Set = None\<rparr>, \<lparr>Name = ''Forest'', Set = None\<rparr>],
                Counts = [''Forest'' \<mapsto> 6]\<rparr>,
          Some \<lparr>Names = [\<lparr>Name = ''Negate'', Set = None\<rparr>], Counts = [''Negate'' \<mapsto> 2]\<rparr>,
          None, None) \<and>
   parseDeckFile ''4 Forest\<newline>\<newline>2 Forest\<newline>\<newline>'' =
     Inr (Some \<lparr>Names = [\<lparr>Name = ''Forest'', Set = None\<rparr>, \<lparr>Name = ''Forest'', Set = None\<rparr>],
                Counts = [''Forest'' \<mapsto> 6]\<rparr>,
          None, None, None) \<and>
   \<not> distinct (map Name [\<lparr>Name = ''Forest'', Set = None\<rparr>, \<lparr>Name = ''Forest'', Set = None\<rparr>])"
  by (simp add: eval_parse scan_dup_sb scan_dup_end line_forest4 line_forest2 line_negate2 wrap64_def)

section \<open>The resolver\<close>

text \<open>
  Claim C9. For every image set, asking for \<^verbatim>\<open>large\<close> or \<^verbatim>\<open>png\<close> without the high
  resolution flag gives the normal URL and one warning in the log, no error; with the flag it
  gives the large or PNG URL; \<^verbatim>\<open>small\<close> and \<^verbatim>\<open>normal\<close> give their URL whatever the
  flag.
\<close>

theorem image_quality_selection:
  "getImageURL (Some u) False large =
     Inr (Normal u, [LogWarn ''High-resolution image not available, using normal quality instead of large'']) \<and>
   getImageURL (Some u) False png =
     Inr (Normal u, [LogWarn ''High-resolution image not available, using normal quality instead of png'']) \<and>
   getImageURL (Some u) True large = Inr (Large u, []) \<and>
   getImageURL (Some u) True png = Inr (PNG u, []) \<and>
   getImageURL (Some u) h small = Inr (Small u, []) \<and>
   getImageURL (Some u) h normal = Inr (Normal u, [])"
  by (simp add: getImageURL_def deref_def small_def normal_def large_def png_def)


subsection \<open>Lookup failure\<close>

lemma cardLoop_append:
  "cardLoop env q opts counts pre st0 = Inr (st1, None) \<Longrightarrow>
   cardLoop env q opts counts (pre @ cs) st0 = cardLoop env q opts counts cs st1"
proof (induction pre arbitrary: st0)
  case Nil
  then show ?case by simp
next
  case (Cons ci pre)
  from Cons.prems obtain st' where "resolveCard env q opts counts ci st0 = Inr (st', None)"
    and "cardLoop env q opts counts pre st' = Inr (st1, None)"
    by (auto split: sum.splits option.splits prod.splits)
  with Cons.IH [of st'] show ?case by simp
qed

lemma resolveCard_lookup_error:
  "GetCardByName env (world st) (Name ci) False (setOption ci) = (Inl err, w) \<Longrightarrow>
   resolveCard env q opts counts ci st =
     Inr (logError (st\<lparr>world := w\<rparr>) ''Scryfall client error'', Some err)"
  by (simp add: resolveCard_def)

text \<open>
  Claim C5. When the cards before \<open>ci\<close> in the zone resolve without error and the primary
  lookup of \<open>ci\<close> fails with \<open>err\<close>, \<open>cardNamesToDeck\<close> stops there and returns \<open>err\<close>
  (next to the deck as filled so far, the cards after \<open>ci\<close> never looked up), and the block
  of \<open>fromDeckFile\<close> that called it returns \<open>err\<close> and no deck: nothing of the zone
  reaches the caller. For the main zone this is the result of the three blocks together.
\<close>

theorem lookup_failure_aborts_zone:
  assumes "Names c = pre @ ci # post"
    and "cardLoop env (imageQualityOf opts) opts (Counts c) pre (startState env name l w0) = Inr (st1, None)"
    and "GetCardByName env (world st1) (Name ci) False (setOption ci) = (Inl err, w)"
  shows "cardNamesToDeck env (Some c) name opts l w0 =
           Inr (logError (st1\<lparr>world := w\<rparr>) ''Scryfall client error'', Some err) \<and>
         addZone env opts (Some t) (Some c) name (ds, l, w0) = Inr (Inl err) \<and>
         (l = [] \<longrightarrow> decksOfZones env opts name (Some c) sidez maybez w0 = Inr (Inl err))"
proof -
  have "cardNamesToDeck env (Some c) name opts l w0 =
          cardLoop env (imageQualityOf opts) opts (Counts c) (ci # post) st1"
    using cardLoop_append [OF assms(2), of "ci # post"] assms(1)
    by (simp add: cardNamesToDeck_def)
  also have "\<dots> = Inr (logError (st1\<lparr>world := w\<rparr>) ''Scryfall client error'', Some err)"
    by (simp add: resolveCard_lookup_error [OF assms(3)])
  finally have a: "cardNamesToDeck env (Some c) name opts l w0 =
           Inr (logError (st1\<lparr>world := w\<rparr>) ''Scryfall client error'', Some err)" .
  then have b: "addZone env opts (Some t') (Some c) name (ds', l, w0) = Inr (Inl err)" for t' ds'
    by (simp add: addZone_def)
  have "decksOfZones env opts name (Some c) sidez maybez w0 = Inr (Inl err)" if "l = []"
    using b [of c "[]"] that by (simp add: decksOfZones_def)
  with a b show ?thesis by simp
qed


lemmas eval_resolve = resolveCard_def fetchRulings_def layoutCard_def singleFaceCard_def
  meldCard_def getImageURL_def deref_def addCard_def logError_def setOption_def
  imageQualityOf_def defaultQuality_def startState_def small_def normal_def large_def png_def
  LayoutMeld_def LayoutFlip_def LayoutSplit_def LayoutAdventure_def
  exampleEnv_def exampleOptions_def plainCard_def meldOrphan_def exampleURIs_def

theorem lookup_failure_aborts_zone_witness:
  "Names brokenZone = [\<lparr>Name = ''Forest'', Set = None\<rparr>] @ \<lparr>Name = ''Unknown'', Set = None\<rparr>
                        # [\<lparr>Name = ''Island'', Set = None\<rparr>] \<and>
   cardLoop exampleEnv (imageQualityOf exampleOptions) exampleOptions (Counts brokenZone)
       [\<lparr>Name = ''Forest'', Set = None\<rparr>] (startState exampleEnv ''deck'' [] 0)
     = Inr (forestResolved, None) \<and>
   GetCardByName exampleEnv (world forestResolved) (Name \<lparr>Name = ''Unknown'', Set = None\<rparr>) False
       (setOption \<lparr>Name = ''Unknown'', Set = None\<rparr>)
     = (Inl (ErrExternal ''not found''), 2) \<and>
   cardNamesToDeck exampleEnv (Some brokenZone) ''deck'' exampleOptions [] 0 =
     Inr (logError (forestResolved\<lparr>world := 2\<rparr>) ''Scryfall client error'',
          Some (ErrExternal ''not found'')) \<and>
   addZone exampleEnv exampleOptions (Some brokenZone) (Some brokenZone) ''deck'' ([], [], 0) =
     Inr (Inl (ErrExternal ''not found'')) \<and>
   decksOfZones exampleEnv exampleOptions ''deck'' (Some brokenZone) None None 0 =
     Inr (Inl (ErrExternal ''not found''))"
proof -
  have h1: "Names brokenZone = [\<lparr>Name = ''Forest'', Set = None\<rparr>] @ \<lparr>Name = ''Unknown'', Set = None\<rparr>
                        # [\<lparr>Name = ''Island'', Set = None\<rparr>]"
    by (simp add: brokenZone_def)
  have h2: "cardLoop exampleEnv (imageQualityOf exampleOptions) exampleOptions (Counts brokenZone)
       [\<lparr>Name = ''Forest'', Set = None\<rparr>] (startState exampleEnv ''deck'' [] 0)
     = Inr (forestResolved, None)"
    by (simp add: eval_resolve brokenZone_def forestResolved_def)
  have h3: "GetCardByName exampleEnv (world forestResolved) (Name \<lparr>Name = ''Unknown'', Set = None\<rparr>)
       False (setOption \<lparr>Name = ''Unknown'', Set = None\<rparr>)
     = (Inl (ErrExternal ''not found''), 2)"
    by (simp add: exampleEnv_def forestResolved_def)
  from lookup_failure_aborts_zone [OF h1 h2 h3, of "brokenZone" "[]" None None] h1 h2 h3
  show ?thesis by simp
qed


subsection \<open>Meld cards without a result\<close>

lemma meldCard_skip:
  assumes "(AllParts crd = [] \<or> meldResultURI crd = []) \<and> w3 = world st \<or>
           AllParts crd \<noteq> [] \<and> meldResultURI crd \<noteq> [] \<and>
           (\<exists>e. GetCard env (world st) (last (Split (meldResultURI crd) CHR ''/'' [])) = (Inl e, w3))"
  shows "\<exists>msg. meldCard env q count crd rs st = Inr (logError (st\<lparr>world := w3\<rparr>) msg, None)"
  using assms by (auto simp: meldCard_def)

lemma getImageURL_Some: "\<exists>url lg. getImageURL (Some u) h q = Inr (url, lg)"
  by (simp add: getImageURL_def deref_def)

lemma singleFaceCard_ok:
  assumes "cardImageURIs crd = Some u" and "CardFaces crd = []"
  shows "\<exists>url lg. singleFaceCard env q count crd rs st =
           Inr (addCard st lg (PCardInfo (cardName crd) (buildCardDescription env crd rs) url count
                                 (Oversized crd) None), None)"
proof -
  from getImageURL_Some [of u "HighresImage crd" q] obtain url lg
    where "getImageURL (Some u) (HighresImage crd) q = Inr (url, lg)" by blast
  with assms have "singleFaceCard env q count crd rs st =
           Inr (addCard st lg (PCardInfo (cardName crd) (buildCardDescription env crd rs) url count
                                 (Oversized crd) None), None)"
    by (simp add: singleFaceCard_def)
  then show ?thesis by blast
qed

text \<open>
  Claim C8. A meld card whose lookup (and rulings) succeeded and that has no related part, no
  part that is the meld result, or whose second lookup fails, adds one error to the log and
  nothing to the deck, and the loop goes on with the remaining cards. In particular a zone of
  such a card followed by a single-faced card with an image, whose lookup succeeds, resolves
  without error to the list that holds the second card only.
\<close>

theorem meld_skip_continues:
  assumes "GetCardByName env (world st) (Name ci) False (setOption ci) = (Inr crd, w1)"
    and "fetchRulings env opts crd w1 = (Inr rs, w2)"
    and "Layout crd = LayoutMeld"
    and "(AllParts crd = [] \<or> meldResultURI crd = []) \<and> w3 = w2 \<or>
         AllParts crd \<noteq> [] \<and> meldResultURI crd \<noteq> [] \<and>
         (\<exists>e. GetCard env w2 (last (Split (meldResultURI crd) CHR ''/'' [])) = (Inl e, w3))"
  shows "(\<exists>msg. \<forall>cs. cardLoop env q opts counts (ci # cs) st =
                      cardLoop env q opts counts cs (logError (st\<lparr>world := w3\<rparr>) msg)) \<and>
         (\<forall>ni nc w4 w5 nrs u name l.
            GetCardByName env w3 (Name ni) False (setOption ni) = (Inr nc, w4) \<longrightarrow>
            fetchRulings env opts nc w4 = (Inr nrs, w5) \<longrightarrow>
            Layout nc \<noteq> LayoutMeld \<longrightarrow> CardFaces nc = [] \<longrightarrow> cardImageURIs nc = Some u \<longrightarrow>
            st = startState env name l (world st) \<longrightarrow> q = imageQualityOf opts \<longrightarrow>
            (\<exists>st' url.
               cardNamesToDeck env (Some \<lparr>Names = [ci, ni], Counts = counts\<rparr>) name opts l (world st)
                 = Inr (st', None) \<and>
               Cards (deck st') =
                 [PCardInfo (cardName nc) (buildCardDescription env nc nrs) url
                    (case counts (Name ni) of None \<Rightarrow> 0 | Some k \<Rightarrow> k) (Oversized nc) None]))"
proof -
  let ?c = "case counts (Name ci) of None \<Rightarrow> 0 | Some k \<Rightarrow> k"
  from meldCard_skip [of crd w3 "st\<lparr>world := w2\<rparr>" env q ?c rs] assms(4)
  obtain msg where m: "meldCard env q ?c crd rs (st\<lparr>world := w2\<rparr>) =
      Inr (logError (st\<lparr>world := w3\<rparr>) msg, None)"
    by auto
  have r: "resolveCard env q opts counts ci st = Inr (logError (st\<lparr>world := w3\<rparr>) msg, None)"
    using assms(1,2,3) m by (simp add: resolveCard_def layoutCard_def)
  then have a: "\<forall>cs. cardLoop env q opts counts (ci # cs) st =
                      cardLoop env q opts counts cs (logError (st\<lparr>world := w3\<rparr>) msg)"
    by simp
  have b: "\<exists>st' url.
               cardNamesToDeck env (Some \<lparr>Names = [ci, ni], Counts = counts\<rparr>) name opts l (world st)
                 = Inr (st', None) \<and>
               Cards (deck st') =
                 [PCardInfo (cardName nc) (buildCardDescription env nc nrs) url
                    (case counts (Name ni) of None \<Rightarrow> 0 | Some k \<Rightarrow> k) (Oversized nc) None]"
    if n1: "GetCardByName env w3 (Name ni) False (setOption ni) = (Inr nc, w4)"
      and n2: "fetchRulings env opts nc w4 = (Inr nrs, w5)"
      and n3: "Layout nc \<noteq> LayoutMeld" and n4: "CardFaces nc = []" and n5: "cardImageURIs nc = Some u"
      and s: "st = startState env name l (world st)" and q: "q = imageQualityOf opts"
    for ni nc w4 w5 nrs u name l
  proof -
    let ?k = "case counts (Name ni) of None \<Rightarrow> 0 | Some k \<Rightarrow> k"
    let ?st1 = "logError (st\<lparr>world := w3\<rparr>) msg"
    from singleFaceCard_ok [OF n5 n4, of env q ?k nrs "?st1\<lparr>world := w5\<rparr>"] obtain url lg where
      sf: "singleFaceCard env q ?k nc nrs (?st1\<lparr>world := w5\<rparr>) =
             Inr (addCard (?st1\<lparr>world := w5\<rparr>) lg
                    (PCardInfo (cardName nc) (buildCardDescription env nc nrs) url ?k (Oversized nc) None),
                  None)"
      by blast
    have "resolveCard env q opts counts ni ?st1 =
            Inr (addCard (?st1\<lparr>world := w5\<rparr>) lg
                    (PCardInfo (cardName nc) (buildCardDescription env nc nrs) url ?k (Oversized nc) None),
                 None)"
      using n1 n2 n3 n4 sf by (simp add: resolveCard_def layoutCard_def logError_def)
    then have "cardLoop env q opts counts [ci, ni] st =
            Inr (addCard (?st1\<lparr>world := w5\<rparr>) lg
                    (PCardInfo (cardName nc) (buildCardDescription env nc nrs) url ?k (Oversized nc) None),
                 None)"
      using r by simp
    moreover have "Cards (deck st) = []"
      by (subst s) (simp add: startState_def)
    moreover have "cardNamesToDeck env (Some \<lparr>Names = [ci, ni], Counts = counts\<rparr>) name opts l (world st)
        = cardLoop env q opts counts [ci, ni] st"
      using s q by (simp add: cardNamesToDeck_def)
    ultimately show ?thesis
      by (simp add: addCard_def logError_def)
  qed
  from a b show ?thesis by blast
qed


theorem meld_skip_continues_witness:
  "GetCardByName exampleEnv (world (startState exampleEnv ''deck'' [] 0))
       (Name \<lparr>Name = ''Bruna'', Set = None\<rparr>) False (setOption \<lparr>Name = ''Bruna'', Set = None\<rparr>)
     = (Inr meldOrphan, 1) \<and>
   fetchRulings exampleEnv exampleOptions meldOrphan 1 = (Inr [], 1) \<and>
   Layout meldOrphan = LayoutMeld \<and> AllParts meldOrphan = [] \<and>
   (\<exists>msg. cardLoop exampleEnv (imageQualityOf exampleOptions) exampleOptions (Counts meldZone)
             (Names meldZone) (startState exampleEnv ''deck'' [] 0) =
           cardLoop exampleEnv (imageQualityOf exampleOptions) exampleOptions (Counts meldZone)
             [\<lparr>Name = ''Forest'', Set = None\<rparr>]
             (logError (startState exampleEnv ''deck'' [] 0\<lparr>world := 1\<rparr>) msg)) \<and>
   cardNamesToDeck exampleEnv (Some meldZone) ''deck'' exampleOptions [] 0 =
     Inr (\<lparr>deck = \<lparr>deckName = ''deck'', BackURL = ''back.jpg'', deckCardSize = CardSizeStandard,
                   Cards = [PCardInfo ''Forest'' ''Forest'' ''normal.jpg'' 4 False None]\<rparr>,
           logs = [LogError ''No meld parts found for card Bruna''], world = 2\<rparr>, None)"
proof -
  let ?st = "startState exampleEnv ''deck'' [] 0"
  have h1: "GetCardByName exampleEnv (world ?st)
       (Name \<lparr>Name = ''Bruna'', Set = None\<rparr>) False (setOption \<lparr>Name = ''Bruna'', Set = None\<rparr>)
     = (Inr meldOrphan, 1)"
    by (simp add: exampleEnv_def startState_def)
  have h2: "fetchRulings exampleEnv exampleOptions meldOrphan 1 = (Inr [], 1)"
    by (simp add: fetchRulings_def exampleOptions_def)
  have h3: "Layout meldOrphan = LayoutMeld"
    by (simp add: meldOrphan_def)
  have h4: "(AllParts meldOrphan = [] \<or> meldResultURI meldOrphan = []) \<and> (1::nat) = 1 \<or>
         AllParts meldOrphan \<noteq> [] \<and> meldResultURI meldOrphan \<noteq> [] \<and>
         (\<exists>e. GetCard exampleEnv 1 (last (Split (meldResultURI meldOrphan) CHR ''/'' [])) = (Inl e, 1))"
    by (simp add: meldOrphan_def)
  have e: "cardNamesToDeck exampleEnv (Some meldZone) ''deck'' exampleOptions [] 0 =
     Inr (\<lparr>deck = \<lparr>deckName = ''deck'', BackURL = ''back.jpg'', deckCardSize = CardSizeStandard,
                   Cards = [PCardInfo ''Forest'' ''Forest'' ''normal.jpg'' 4 False None]\<rparr>,
           logs = [LogError ''No meld parts found for card Bruna''], world = 2\<rparr>, None)"
    by (simp add: cardNamesToDeck_def meldZone_def eval_resolve)
  from meld_skip_continues [OF h1 h2 h3 h4, of "imageQualityOf exampleOptions" "Counts meldZone"]
  have "\<exists>msg. cardLoop exampleEnv (imageQualityOf exampleOptions) exampleOptions (Counts meldZone)
             (\<lparr>Name = ''Bruna'', Set = None\<rparr> # [\<lparr>Name = ''Forest'', Set = None\<rparr>]) ?st =
           cardLoop exampleEnv (imageQualityOf exampleOptions) exampleOptions (Counts meldZone)
             [\<lparr>Name = ''Forest'', Set = None\<rparr>] (logError (?st\<lparr>world := 1\<rparr>) msg)"
    by blast
  then show ?thesis
    using h1 h2 h3 e by (simp add: meldZone_def meldOrphan_def)
qed

subsection \<open>The name of a resolved deck\<close>

lemma meldCard_deckName:
  "meldCard env q count crd rs st = Inr (st', e) \<Longrightarrow> deckName (deck st') = deckName (deck st)"
  by (auto simp: meldCard_def addCard_def logError_def split: if_splits prod.splits sum.splits)

lemma singleFaceCard_deckName:
  "singleFaceCard env q count crd rs st = Inr (st', e) \<Longrightarrow> deckName (deck st') = deckName (deck st)"
  by (auto simp: singleFaceCard_def addCard_def split: if_splits prod.splits sum.splits)

lemma transformCard_deckName:
  "transformCard env q count crd rs st = Inr (st', e) \<Longrightarrow> deckName (deck st') = deckName (deck st)"
  by (auto simp: transformCard_def addCard_def split: list.splits prod.splits sum.splits)

lemma resolveCard_deckName:
  assumes "resolveCard env q opts counts ci st = Inr (st', e)"
  shows "deckName (deck st') = deckName (deck st)"
proof (cases "GetCardByName env (world st) (Name ci) False (setOption ci)")
  case (Pair r w)
  show ?thesis
  proof (cases r)
    case (Inl err)
    with Pair assms show ?thesis by (auto simp: resolveCard_def logError_def)
  next
    case (Inr crd)
    show ?thesis
    proof (cases "fetchRulings env opts crd w")
      case (Pair r' w')
      show ?thesis
      proof (cases r')
        case (Inl err)
        with Pair Inr \<open>GetCardByName env (world st) (Name ci) False (setOption ci) = (r, w)\<close> assms
        show ?thesis by (auto simp: resolveCard_def logError_def)
      next
        case (Inr rs)
        with Pair \<open>r = Inr crd\<close> \<open>GetCardByName env (world st) (Name ci) False (setOption ci) = (r, w)\<close> assms
        have "layoutCard env q (case counts (Name ci) of None \<Rightarrow> 0 | Some c \<Rightarrow> c) crd rs (st\<lparr>world := w'\<rparr>)
                = Inr (st', e)"
          by (simp add: resolveCard_def)
        then have "deckName (deck st') = deckName (deck (st\<lparr>world := w'\<rparr>))"
          by (auto simp: layoutCard_def split: if_splits
                dest: meldCard_deckName singleFaceCard_deckName transformCard_deckName)
        then show ?thesis by simp
      qed
    qed
  qed
qed

lemma cardLoop_deckName:
  "cardLoop env q opts counts cs st = Inr (st', e) \<Longrightarrow> deckName (deck st') = deckName (deck st)"
proof (induction cs arbitrary: st)
  case Nil
  then show ?case by simp
next
  case (Cons ci cs)
  from Cons.prems obtain st1 e1 where r: "resolveCard env q opts counts ci st = Inr (st1, e1)"
    by (auto split: sum.splits)
  show ?case
  proof (cases e1)
    case None
    with r Cons.prems have "cardLoop env q opts counts cs st1 = Inr (st', e)" by simp
    from Cons.IH [OF this] resolveCard_deckName [OF r] show ?thesis by simp
  next
    case (Some err)
    with r Cons.prems have "st' = st1" by simp
    with resolveCard_deckName [OF r] show ?thesis by simp
  qed
qed

lemma cardNamesToDeck_deckName:
  "cardNamesToDeck env z name opts l w = Inr (st, e) \<Longrightarrow> deckName (deck st) = name"
  by (auto simp: cardNamesToDeck_def startState_def split: option.splits dest!: cardLoop_deckName)

lemma addZone_ok:
  assumes "addZone env opts (Some t) z name acc = Inr (Inr acc')"
  shows "\<exists>st. cardNamesToDeck env z name opts (fst (snd acc)) (snd (snd acc)) = Inr (st, None) \<and>
              acc' = (fst acc @ [deck st], logs st, world st)"
  using assms by (auto simp: addZone_def split: sum.splits option.splits)

subsection \<open>Files with a maybeboard\<close>

lemma scan_three_zones:
  "scanLines ''1 Forest\<newline>Sideboard\<newline>1 Negate\<newline>Maybeboard\<newline>1 Island'' =
     ([''1 Forest'', ''Sideboard'', ''1 Negate'', ''Maybeboard'', ''1 Island''], None)"
  by code_simp

lemma scan_no_sideboard:
  "scanLines ''1 Forest\<newline>Maybeboard\<newline>1 Negate'' =
     ([''1 Forest'', ''Maybeboard'', ''1 Negate''], None)"
  by code_simp

lemma parse_three_zones:
  "parseDeckFile ''1 Forest\<newline>Sideboard\<newline>1 Negate\<newline>Maybeboard\<newline>1 Island'' =
     Inr (Some (oneCard ''Forest''), Some (oneCard ''Negate''), Some (oneCard ''Island''), None)"
  by (simp add: eval_parse scan_three_zones line_forest1 line_negate1 line_island1
        line_Sideboard line_Maybeboard oneCard_def)

lemma parse_no_sideboard:
  "parseDeckFile ''1 Forest\<newline>Maybeboard\<newline>1 Negate'' =
     Inr (Some (oneCard ''Forest''), None, Some (oneCard ''Negate''), None)"
  by (simp add: eval_parse scan_no_sideboard line_forest1 line_negate1 line_Maybeboard oneCard_def)

lemma resolve_oneCard:
  "n \<noteq> ''Unknown'' \<Longrightarrow> n \<noteq> ''Bruna'' \<Longrightarrow>
   cardNamesToDeck exampleEnv (Some (oneCard n)) name exampleOptions l w =
     Inr (\<lparr>deck = oneCardDeck name n, logs = l, world = Suc w\<rparr>, None)"
  by (simp add: cardNamesToDeck_def oneCard_def oneCardDeck_def eval_resolve)

text \<open>
  Claim C3. When the parser returns a sideboard and a maybeboard and \<open>fromDeckFile\<close>
  returns decks, the last deck, named with the suffix \<^verbatim>\<open> - Maybeboard\<close>, is what
  \<open>cardNamesToDeck\<close> makes of the sideboard's collection; the maybeboard's collection has
  no part in it: any other maybeboard gives the same decks.
\<close>

theorem maybeboard_deck_from_sideboard:
  assumes "parseDeckFile file = Inr (mainz, Some sd, Some mb, None)"
    and "fromDeckFile env (Inr opts) file name w = Inr (Inr decks)"
  shows "(\<exists>l w' st. cardNamesToDeck env (Some sd) (name @ '' - Maybeboard'') opts l w' = Inr (st, None)
            \<and> decks \<noteq> [] \<and> last decks = deck st
            \<and> deckName (last decks) = name @ '' - Maybeboard'') \<and>
         (\<forall>mb'. decksOfZones env opts name mainz (Some sd) (Some mb') w = Inr (Inr decks))"
proof -
  from assms have d: "decksOfZones env opts name mainz (Some sd) (Some mb) w = Inr (Inr decks)"
    by (simp add: fromDeckFile_def)
  have indep: "addZone env opts (Some mb) (Some sd) n acc = addZone env opts (Some mb') (Some sd) n acc"
    for mb' n and acc :: "'a facc"
    by (simp add: addZone_def)
  from d obtain acc2 acc3 where
    a3: "addZone env opts (Some mb) (Some sd) (name @ '' - Maybeboard'') acc2 = Inr (Inr acc3)"
    and ds: "decks = fst acc3"
    by (auto simp: decksOfZones_def split: sum.splits)
  from addZone_ok [OF a3] obtain st where
    c: "cardNamesToDeck env (Some sd) (name @ '' - Maybeboard'') opts (fst (snd acc2)) (snd (snd acc2))
          = Inr (st, None)"
    and acc3: "acc3 = (fst acc2 @ [deck st], logs st, world st)"
    by blast
  from ds acc3 have "decks \<noteq> []" "last decks = deck st" by simp_all
  moreover from cardNamesToDeck_deckName [OF c] have "deckName (deck st) = name @ '' - Maybeboard''" .
  moreover have "decksOfZones env opts name mainz (Some sd) (Some mb') w = Inr (Inr decks)" for mb'
    using d by (simp add: decksOfZones_def indep [of _ _ mb'] cong: sum.case_cong)
  ultimately show ?thesis using c by auto
qed


theorem maybeboard_deck_from_sideboard_witness:
  "parseDeckFile ''1 Forest\<newline>Sideboard\<newline>1 Negate\<newline>Maybeboard\<newline>1 Island'' =
     Inr (Some (oneCard ''Forest''), Some (oneCard ''Negate''), Some (oneCard ''Island''), None) \<and>
   fromDeckFile exampleEnv (Inr exampleOptions)
       ''1 Forest\<newline>Sideboard\<newline>1 Negate\<newline>Maybeboard\<newline>1 Island'' ''deck'' 0 =
     Inr (Inr [oneCardDeck ''deck'' ''Forest'', oneCardDeck ''deck - Sideboard'' ''Negate'',
               oneCardDeck ''deck - Maybeboard'' ''Negate'']) \<and>
   (\<exists>l w' st. cardNamesToDeck exampleEnv (Some (oneCard ''Negate'')) (''deck'' @ '' - Maybeboard'')
                 exampleOptions l w' = Inr (st, None) \<and>
               deck st = oneCardDeck ''deck - Maybeboard'' ''Negate'')"
proof -
  have h1: "parseDeckFile ''1 Forest\<newline>Sideboard\<newline>1 Negate\<newline>Maybeboard\<newline>1 Island'' =
     Inr (Some (oneCard ''Forest''), Some (oneCard ''Negate''), Some (oneCard ''Island''), None)"
    by (rule parse_three_zones)
  have h2: "fromDeckFile exampleEnv (Inr exampleOptions)
       ''1 Forest\<newline>Sideboard\<newline>1 Negate\<newline>Maybeboard\<newline>1 Island'' ''deck'' 0 =
     Inr (Inr [oneCardDeck ''deck'' ''Forest'', oneCardDeck ''deck - Sideboard'' ''Negate'',
               oneCardDeck ''deck - Maybeboard'' ''Negate''])"
    by (simp add: fromDeckFile_def parse_three_zones decksOfZones_def addZone_def resolve_oneCard)
  from maybeboard_deck_from_sideboard [OF h1 h2] obtain l w' st where
    c: "cardNamesToDeck exampleEnv (Some (oneCard ''Negate'')) (''deck'' @ '' - Maybeboard'')
          exampleOptions l w' = Inr (st, None)"
    and d: "last [oneCardDeck ''deck'' ''Forest'', oneCardDeck ''deck - Sideboard'' ''Negate'',
                  oneCardDeck ''deck - Maybeboard'' ''Negate''] = deck st"
    by blast
  from d have "deck st = oneCardDeck ''deck - Maybeboard'' ''Negate''" by simp
  with c h1 h2 show ?thesis by blast
qed

text \<open>
  Claim C10. The text \<^verbatim>\<open>1 Forest\nMaybeboard\n1 Negate\<close> parses to a main zone and a
  maybeboard, with no sideboard. Whenever the main zone resolves without error,
  \<open>fromDeckFile\<close> then passes the nil sideboard to \<open>cardNamesToDeck\<close> for the maybeboard's
  deck, which dereferences it: the result is the nil-dereference panic, not an error value.
\<close>

theorem maybeboard_without_sideboard_panics:
  assumes "cardNamesToDeck env (Some (oneCard ''Forest'')) name opts [] w = Inr (st, None)"
  shows "parseDeckFile ''1 Forest\<newline>Maybeboard\<newline>1 Negate'' =
           Inr (Some (oneCard ''Forest''), None, Some (oneCard ''Negate''), None) \<and>
         cardNamesToDeck env None (name @ '' - Maybeboard'') opts (logs st) (world st) =
           Inl NilDereference \<and>
         fromDeckFile env (Inr opts) ''1 Forest\<newline>Maybeboard\<newline>1 Negate'' name w =
           Inl NilDereference"
  using assms
  by (simp add: parse_no_sideboard fromDeckFile_def decksOfZones_def addZone_def cardNamesToDeck_def)

theorem maybeboard_without_sideboard_panics_witness:
  "cardNamesToDeck exampleEnv (Some (oneCard ''Forest'')) ''deck'' exampleOptions [] 0 =
     Inr (\<lparr>deck = oneCardDeck ''deck'' ''Forest'', logs = [], world = 1\<rparr>, None) \<and>
   parseDeckFile ''1 Forest\<newline>Maybeboard\<newline>1 Negate'' =
     Inr (Some (oneCard ''Forest''), None, Some (oneCard ''Negate''), None) \<and>
   fromDeckFile exampleEnv (Inr exampleOptions) ''1 Forest\<newline>Maybeboard\<newline>1 Negate'' ''deck'' 0 =
     Inl NilDereference"
proof -
  have h: "cardNamesToDeck exampleEnv (Some (oneCard ''Forest'')) ''deck'' exampleOptions [] 0 =
     Inr (\<lparr>deck = oneCardDeck ''deck'' ''Forest'', logs = [], world = 1\<rparr>, None)"
    by (simp add: resolve_oneCard)
  from maybeboard_without_sideboard_panics [OF h] h show ?thesis by simp
qed


end
